theory Spec2Isabelle
  imports Complex_Main
begin

section \<open>Data model\<close>

text \<open>
  Kubernetes \<open>types.NamespacedName\<close>: a (namespace, name) pair with structural equality.
  \<open>String()\<close> renders it as namespace, the separator \<open>/\<close>, name.
\<close>

record NamespacedName =
  Namespace :: string
  Name :: string

definition NamespacedName_String :: "NamespacedName \<Rightarrow> string" where
  "NamespacedName_String n = Namespace n @ ''/'' @ Name n"

text \<open>\<open>backendmetrics.Pod\<close>: identity and address of one backend.\<close>

record Pod =
  NamespacedName :: NamespacedName
  Address :: string

text \<open>
  Modelled from the spec: the metrics type is declared outside the files at hand; the
  fields are those of the data model (queue depth, KV-cache utilisation, loaded LoRA
  adapters, LoRA slots, readiness). Utilisation is a float64 in the program and a real
  number here; only order comparisons are made on it.
\<close>

record Metrics =
  QueueDepth :: int
  KVCacheUtilization :: real
  ActiveLoRAAdapters :: "string list"
  MaxLoRASlots :: int
  Ready :: bool

text \<open>
  A pod-metrics handle: the pod and its last metrics. The datastore stores handles
  (\<open>backendmetrics.PodMetrics\<close>); the scheduler works on copies (\<open>types.PodMetrics\<close>).
\<close>

record PodMetrics =
  Pod :: Pod
  Metrics :: Metrics

record InferencePool =
  pool_Name :: string
  pool_Namespace :: string
  Selector :: "(string \<times> string) list"

text \<open>
  \<open>v1alpha2.InferenceModel\<close>: the object's name and namespace, its creation timestamp
  (an instant, as an integer) and \<open>Spec.ModelName\<close>.
\<close>

record InferenceModel =
  meta_Name :: string
  meta_Namespace :: string
  CreationTimestamp :: int
  Spec_ModelName :: string

record sessionInfo =
  si_pod :: "Pod option"
  si_lru :: int

text \<open>
  The session table is a \<open>sync.Map\<close> of untyped values; \<open>SetPodForSession\<close> stores
  \<open>*sessionInfo\<close>, and the readers test the dynamic type.
\<close>

datatype session_value = SessionInfoPtr sessionInfo | OtherValue

text \<open>
  The datastore. \<open>pool\<close> is a pointer (\<open>None\<close> is nil), \<open>models\<close> a Go map,
  \<open>pods\<close> and \<open>sessions\<close> are \<open>sync.Map\<close>s. The pod map is an association list
  whose order stands for the unspecified order of \<open>Range\<close>; lookups take the first
  entry of a key, deletion removes the key.
\<close>

record datastore =
  ds_pool :: "InferencePool option"
  ds_models :: "string \<rightharpoonup> InferenceModel"
  ds_pods :: "(NamespacedName \<times> PodMetrics) list"
  ds_sessions :: "string \<rightharpoonup> session_value"

section \<open>Errors and panics\<close>

text \<open>
  Modelled from the spec: the package of error codes is outside the files at hand; the
  codes are those listed among the external interfaces. Only
  \<open>InferencePoolResourceExhausted\<close> is named in the code at hand.
\<close>

datatype ErrorCode =
  InferencePoolResourceExhausted | PoolNotSynced | Cancelled
  | KVCacheIndexerUnavailable | Internal

text \<open>
  Go error values: \<open>errutil.Error{Code, Msg}\<close>, an error made by \<open>errors.New\<close> (or any
  error of an external library), and \<open>fmt.Errorf\<close> with the verb \<open>%w\<close>, which wraps
  its operand (nil when the operand is nil). The string of \<open>Errorf\<close> is the format.
\<close>

datatype error =
  ErrutilError ErrorCode string
  | ErrorsNew string
  | Errorf string "error option"

text \<open>\<open>errors.Unwrap\<close>: the wrapped error of an \<open>Errorf\<close> value, nil otherwise.\<close>

fun Unwrap :: "error \<Rightarrow> error option" where
  "Unwrap (Errorf f e) = e"
| "Unwrap (ErrutilError c m) = None"
| "Unwrap (ErrorsNew m) = None"

text \<open>
  The code of the first \<open>errutil.Error\<close> on the chain of wrapped errors, as
  \<open>errors.As\<close> finds it.
\<close>

fun chainCode :: "error \<Rightarrow> ErrorCode option" where
  "chainCode (ErrutilError c m) = Some c"
| "chainCode (ErrorsNew m) = None"
| "chainCode (Errorf f None) = None"
| "chainCode (Errorf f (Some e)) = chainCode e"

text \<open>A call either panics, returns an error, or returns a value (\<open>Inr\<close>).\<close>

datatype failure = Panic string | Error error

definition errPoolNotSynced :: error where
  "errPoolNotSynced = ErrorsNew ''InferencePool is not initialized in data store''"

definition nilDereference :: failure where
  "nilDereference = Panic ''invalid memory address or nil pointer dereference''"

section \<open>Datastore\<close>

definition Clear :: "datastore \<Rightarrow> datastore" where
  "Clear ds = ds\<lparr>ds_pool := None, ds_models := Map.empty, ds_pods := []\<rparr>"

definition PoolSet :: "datastore \<Rightarrow> InferencePool option \<Rightarrow> datastore" where
  "PoolSet ds p = ds\<lparr>ds_pool := p\<rparr>"

definition PoolHasSynced :: "datastore \<Rightarrow> bool" where
  "PoolHasSynced ds = (ds_pool ds \<noteq> None)"

definition PoolGet :: "datastore \<Rightarrow> error + InferencePool" where
  "PoolGet ds =
     (if \<not> PoolHasSynced ds then Inl errPoolNotSynced
      else (case ds_pool ds of Some p \<Rightarrow> Inr p | None \<Rightarrow> Inl errPoolNotSynced))"

text \<open>
  \<open>labels.SelectorFromSet\<close> turns a label map into one equality requirement per entry;
  \<open>Matches\<close> holds when the label set has every required key with the required value.
\<close>

definition stripLabelKeyAliasFromLabelMap :: "(string \<times> string) list \<Rightarrow> (string \<times> string) list" where
  "stripLabelKeyAliasFromLabelMap ls = map (\<lambda>(k, v). (k, v)) ls"

definition SelectorFromSet :: "(string \<times> string) list \<Rightarrow> (string \<times> string) list" where
  "SelectorFromSet ls = ls"

definition Matches :: "(string \<times> string) list \<Rightarrow> (string \<rightharpoonup> string) \<Rightarrow> bool" where
  "Matches reqs ls = list_all (\<lambda>(k, v). ls k = Some v) reqs"

definition selectorFromInferencePoolSelector :: "(string \<times> string) list \<Rightarrow> (string \<times> string) list" where
  "selectorFromInferencePoolSelector selector = SelectorFromSet (stripLabelKeyAliasFromLabelMap selector)"

text \<open>\<open>ds.pool.Spec.Selector\<close> dereferences the pool pointer: a nil pool panics.\<close>

definition PoolLabelsMatch :: "datastore \<Rightarrow> (string \<rightharpoonup> string) \<Rightarrow> failure + bool" where
  "PoolLabelsMatch ds podLabels =
     (case ds_pool ds of
        None \<Rightarrow> Inl nilDereference
      | Some p \<Rightarrow> Inr (Matches (selectorFromInferencePoolSelector (Selector p)) podLabels))"

text \<open>
  \<open>ModelSetIfOlder\<close> returns the flag and the new store. \<open>Time.Before\<close> is the strict
  order of instants.
\<close>

definition ModelSetIfOlder :: "datastore \<Rightarrow> InferenceModel \<Rightarrow> bool \<times> datastore" where
  "ModelSetIfOlder ds infModel =
     (case ds_models ds (Spec_ModelName infModel) of
        Some existing \<Rightarrow>
          (let diffObj = (meta_Name infModel \<noteq> meta_Name existing
                          \<or> meta_Namespace infModel \<noteq> meta_Namespace existing)
           in if diffObj \<and> CreationTimestamp existing < CreationTimestamp infModel
              then (False, ds)
              else (True, ds\<lparr>ds_models := (ds_models ds)(Spec_ModelName infModel \<mapsto> infModel)\<rparr>))
      | None \<Rightarrow> (True, ds\<lparr>ds_models := (ds_models ds)(Spec_ModelName infModel \<mapsto> infModel)\<rparr>))"

definition ModelGet :: "datastore \<Rightarrow> string \<Rightarrow> InferenceModel option" where
  "ModelGet ds modelName = ds_models ds modelName"

definition PodList :: "datastore \<Rightarrow> (PodMetrics \<Rightarrow> bool) \<Rightarrow> PodMetrics list" where
  "PodList ds predicate = filter predicate (map snd (ds_pods ds))"

definition PodGetAll :: "datastore \<Rightarrow> PodMetrics list" where
  "PodGetAll ds = PodList ds (\<lambda>pm. True)"

text \<open>
  \<open>PodDelete\<close> returns the new store and the handles on which it invoked
  \<open>StopRefreshLoop\<close>, in order. \<open>LoadAndDelete\<close> yields the stored value, if any, and
  removes the key.
\<close>

definition LoadAndDelete ::
  "(NamespacedName \<times> PodMetrics) list \<Rightarrow> NamespacedName
    \<Rightarrow> PodMetrics option \<times> (NamespacedName \<times> PodMetrics) list" where
  "LoadAndDelete m k = (map_of m k, filter (\<lambda>kv. fst kv \<noteq> k) m)"

definition PodDelete :: "datastore \<Rightarrow> NamespacedName \<Rightarrow> datastore \<times> PodMetrics list" where
  "PodDelete ds namespacedName =
     (case LoadAndDelete (ds_pods ds) namespacedName of
        (Some pmr, m) \<Rightarrow> (ds\<lparr>ds_pods := m\<rparr>, [pmr])
      | (None, m) \<Rightarrow> (ds\<lparr>ds_pods := m\<rparr>, []))"

text \<open>A sequence of \<open>PodDelete\<close> calls, collecting the \<open>StopRefreshLoop\<close> invocations.\<close>

fun PodDelete_seq :: "datastore \<Rightarrow> NamespacedName list \<Rightarrow> datastore \<times> PodMetrics list" where
  "PodDelete_seq ds [] = (ds, [])"
| "PodDelete_seq ds (k # ks) =
     (let (ds1, stopped1) = PodDelete ds k;
          (ds2, stopped2) = PodDelete_seq ds1 ks
      in (ds2, stopped1 @ stopped2))"

text \<open>\<open>SetPodForSession\<close> stamps the entry with the current time \<open>now\<close>.\<close>

definition SetPodForSession :: "int \<Rightarrow> datastore \<Rightarrow> string \<Rightarrow> Pod option \<Rightarrow> datastore" where
  "SetPodForSession now ds sessionID p =
     ds\<lparr>ds_sessions := (ds_sessions ds)(sessionID \<mapsto> SessionInfoPtr \<lparr>si_pod = p, si_lru = now\<rparr>)\<rparr>"

definition GetPodForSession :: "datastore \<Rightarrow> string \<Rightarrow> Pod option" where
  "GetPodForSession ds sessionID =
     (case ds_sessions ds sessionID of
        Some (SessionInfoPtr si) \<Rightarrow> si_pod si
      | Some OtherValue \<Rightarrow> None
      | None \<Rightarrow> None)"

section \<open>Pickers\<close>

record 'a Result =
  TargetPod :: 'a

text \<open>
  \<open>rand.Intn n\<close> panics when \<open>n\<close> is not positive and otherwise returns a number below
  \<open>n\<close>. The draw is the argument \<open>r\<close>: every index below \<open>n\<close> is the outcome of
  some draw.
\<close>

definition rand_Intn :: "nat \<Rightarrow> nat \<Rightarrow> failure + nat" where
  "rand_Intn r n = (if n = 0 then Inl (Panic ''invalid argument to Intn'') else Inr (r mod n))"

definition RandomPicker_Pick :: "nat \<Rightarrow> 'a list \<Rightarrow> failure + 'a Result" where
  "RandomPicker_Pick r pods =
     (case rand_Intn r (length pods) of
        Inl f \<Rightarrow> Inl f
      | Inr i \<Rightarrow> Inr \<lparr>TargetPod = pods ! i\<rparr>)"

text \<open>\<open>types.ScoredPod\<close>: a pod with its score; \<open>GetPod\<close> gives the pod's identity.\<close>

record ScoredPod =
  sp_Pod :: PodMetrics
  sp_Score :: real

definition GetPod :: "ScoredPod \<Rightarrow> Pod" where
  "GetPod sp = Pod (sp_Pod sp)"

text \<open>
  The usage map of the LRU picker, a Go map: reading a missing key yields 0. Counts are
  Go ints, unbounded integers here (no count comes near the 64-bit limit).
\<close>

type_synonym podsCache = "NamespacedName \<rightharpoonup> int"

definition cacheGet :: "podsCache \<Rightarrow> NamespacedName \<Rightarrow> int" where
  "cacheGet c k = (case c k of Some u \<Rightarrow> u | None \<Rightarrow> 0)"

text \<open>
  The loop of \<open>LRUPicker.Pick\<close> over the candidates; the state is the usage map, the
  best pods so far and the least usage so far.
\<close>

fun lru_loop ::
  "ScoredPod list \<Rightarrow> podsCache \<times> ScoredPod list \<times> int \<Rightarrow> podsCache \<times> ScoredPod list \<times> int" where
  "lru_loop [] st = st"
| "lru_loop (pod # rest) (c, bestPods, minUsages) =
     (let k = NamespacedName (GetPod pod);
          (podUsages, c1) = (case c k of Some u \<Rightarrow> (u, c) | None \<Rightarrow> (0, c(k \<mapsto> 0)))
      in if podUsages = minUsages then lru_loop rest (c1, bestPods @ [pod], minUsages)
         else if podUsages < minUsages then lru_loop rest (c1, [pod], podUsages)
         else lru_loop rest (c1, bestPods, minUsages))"

text \<open>\<open>LRUPicker.Pick\<close> returns its outcome and the usage map it leaves behind.\<close>

definition LRUPicker_Pick ::
  "nat \<Rightarrow> podsCache \<Rightarrow> ScoredPod list \<Rightarrow> (failure + ScoredPod Result) \<times> podsCache" where
  "LRUPicker_Pick r c scoredPods =
     (let (c1, bestPods, minUsages) = lru_loop scoredPods (c, [], 100000)
      in if length bestPods = 1
         then (let k = NamespacedName (GetPod (bestPods ! 0))
               in (Inr \<lparr>TargetPod = bestPods ! 0\<rparr>, c1(k \<mapsto> cacheGet c1 k + 1)))
         else (case RandomPicker_Pick r bestPods of
                 Inl f \<Rightarrow> (Inl f, c1)
               | Inr res \<Rightarrow>
                   (let k = NamespacedName (GetPod (TargetPod res))
                    in (Inr res, c1(k \<mapsto> cacheGet c1 k + 1)))))"

section \<open>Scorers\<close>

text \<open>
  Modelled from the spec: the request type is declared outside the files at hand; the
  fields are those of the data model.
\<close>

record LLMRequest =
  Model :: string
  Prompt :: string
  SessionID :: string
  Critical :: bool

text \<open>
  \<open>types.Context\<close>: the request, a pointer (\<open>None\<close> is nil), and the frozen snapshot.
  The logger and the cancellation handle are left out.
\<close>

record Context =
  Req :: "LLMRequest option"
  PodsSnapshot :: "PodMetrics list"

record PodScore =
  ps_Score :: real
  ps_Pod :: PodMetrics

text \<open>
  \<open>SessionAffinityScorer.ScoreTargets\<close>. \<open>ctx.Req.SessionID\<close> dereferences the
  request: a nil request panics. The slice of scores starts zeroed, so a pod that does
  not match keeps score 0.
\<close>

definition SessionAffinityScorer_ScoreTargets ::
  "datastore \<Rightarrow> Context \<Rightarrow> PodMetrics list \<Rightarrow> failure + PodScore list" where
  "SessionAffinityScorer_ScoreTargets ds ctx pods =
     (case Req ctx of
        None \<Rightarrow> Inl nilDereference
      | Some req \<Rightarrow>
          (let selectedPodFullName =
                 (if SessionID req \<noteq> ''''
                  then (case GetPodForSession ds (SessionID req) of
                          Some selectedPod \<Rightarrow> NamespacedName_String (NamespacedName selectedPod)
                        | None \<Rightarrow> '''')
                  else '''')
           in Inr (map (\<lambda>pod.
                 \<lparr>ps_Score = (if selectedPodFullName = NamespacedName_String (NamespacedName (Pod pod))
                              then 1 else 0),
                  ps_Pod = pod\<rparr>) pods)))"

text \<open>
  The external KV-cache indexer: \<open>GetPodScores prompt model podIdentifiers\<close> fails with
  an error or returns named scores.
\<close>

record IndexerPodScore =
  ips_Name :: string
  ips_Score :: real

type_synonym Indexer = "string \<Rightarrow> string \<Rightarrow> string list \<Rightarrow> error + IndexerPodScore list"

text \<open>
  \<open>podMetricsToKeysAndMap\<close>: the addresses of the pods that are not nil, in order, and
  the map from address to pod (a later pod with the same address replaces an earlier one).
\<close>

fun podMetricsToKeysAndMap_loop ::
  "PodMetrics option list \<Rightarrow> string list \<times> (string \<rightharpoonup> PodMetrics)
    \<Rightarrow> string list \<times> (string \<rightharpoonup> PodMetrics)" where
  "podMetricsToKeysAndMap_loop [] acc = acc"
| "podMetricsToKeysAndMap_loop (None # rest) acc = podMetricsToKeysAndMap_loop rest acc"
| "podMetricsToKeysAndMap_loop (Some pod # rest) (podIdentifiers, podIdentifierToPod) =
     podMetricsToKeysAndMap_loop rest
       (podIdentifiers @ [Address (Pod pod)], podIdentifierToPod(Address (Pod pod) \<mapsto> pod))"

definition podMetricsToKeysAndMap ::
  "PodMetrics option list \<Rightarrow> string list \<times> (string \<rightharpoonup> PodMetrics)" where
  "podMetricsToKeysAndMap pods = podMetricsToKeysAndMap_loop pods ([], Map.empty)"

text \<open>
  \<open>KVCacheAwareScorer.ScoreTargets\<close>; the pods are pointers that the scorer tests for
  nil. An indexer failure is wrapped by \<open>fmt.Errorf\<close> with \<open>%w\<close>.
\<close>

definition KVCacheAwareScorer_ScoreTargets ::
  "Indexer \<Rightarrow> Context \<Rightarrow> PodMetrics option list \<Rightarrow> failure + PodScore list" where
  "KVCacheAwareScorer_ScoreTargets GetPodScores ctx pods =
     (case Req ctx of
        None \<Rightarrow> Inl (Error (ErrorsNew ''request (ctx.Req) is nil, cannot score pods''))
      | Some req \<Rightarrow>
          (let (podIdentifiers, podIdentifierToPod) = podMetricsToKeysAndMap pods
           in if length podIdentifiers = 0 then Inr []
              else (case GetPodScores (Prompt req) (Model req) podIdentifiers of
                      Inl err \<Rightarrow> Inl (Error (Errorf ''failed to get pod scores: %w'' (Some err)))
                    | Inr scores \<Rightarrow>
                        Inr (List.map_filter (\<lambda>pod.
                               (case podIdentifierToPod (ips_Name pod) of
                                  None \<Rightarrow> None
                                | Some podMetrics \<Rightarrow>
                                    Some \<lparr>ps_Score = ips_Score pod, ps_Pod = podMetrics\<rparr>))
                             scores))))"

section \<open>Filters\<close>

record Config =
  KVCacheThreshold :: real
  QueueThresholdCritical :: int
  QueueingThresholdLoRA :: int
  LoraAffinityThreshold :: real

definition defaultConfig :: Config where
  "defaultConfig =
     \<lparr>KVCacheThreshold = 8 / 10, QueueThresholdCritical = 5,
      QueueingThresholdLoRA = 128, LoraAffinityThreshold = 999 / 1000\<rparr>"

text \<open>
  A filter function returns the pods it keeps and an error, as the Go functions return
  both.
\<close>

type_synonym filterFunc = "Context \<Rightarrow> PodMetrics list \<Rightarrow> PodMetrics list \<times> error option"

type_synonym podPredicate = "LLMRequest option \<Rightarrow> PodMetrics \<Rightarrow> bool"

text \<open>
  A filter is a basic filter (a name and a filter function) or a node of the decision
  tree: the current filter and the optional successors \<open>nextOnSuccess\<close>,
  \<open>nextOnFailure\<close> and \<open>nextOnSuccessOrFailure\<close>.
\<close>

datatype Filter =
  basicFilter string filterFunc
  | decisionTreeFilter Filter "Filter option" "Filter option" "Filter option"

text \<open>
  Modelled from the spec: the \<open>Filter\<close> methods of the basic filter and of the
  decision-tree filter are outside the files at hand. A basic filter runs its function.
  A node runs \<open>current\<close>; a result that is not empty is a success and goes, filtered,
  to the successor on success; an empty result is a failure and the input pods go to the
  successor on failure; \<open>nextOnSuccessOrFailure\<close> serves both ways when the specific
  successor is absent; a node without the matching successor returns the output of
  \<open>current\<close>.
\<close>

fun Filter_Filter :: "Filter \<Rightarrow> Context \<Rightarrow> PodMetrics list \<Rightarrow> PodMetrics list \<times> error option" where
  "Filter_Filter (basicFilter name f) ctx pods = f ctx pods"
| "Filter_Filter (decisionTreeFilter current nextOnSuccess nextOnFailure nextOnSuccessOrFailure) ctx pods =
     (case Filter_Filter current ctx pods of
        (filtered, err) \<Rightarrow>
          if filtered \<noteq> []
          then (case nextOnSuccess of
                  Some next \<Rightarrow> Filter_Filter next ctx filtered
                | None \<Rightarrow>
                    (case nextOnSuccessOrFailure of
                       Some next \<Rightarrow> Filter_Filter next ctx filtered
                     | None \<Rightarrow> (filtered, err)))
          else (case nextOnFailure of
                  Some next \<Rightarrow> Filter_Filter next ctx pods
                | None \<Rightarrow>
                    (case nextOnSuccessOrFailure of
                       Some next \<Rightarrow> Filter_Filter next ctx pods
                     | None \<Rightarrow> (filtered, err))))"

text \<open>
  Modelled from the spec: \<open>toFilterFunc\<close> is outside the files at hand. A basic filter
  over a predicate keeps the pods that satisfy it, in order, and returns an empty list
  without error when none does.
\<close>

definition toFilterFunc :: "podPredicate \<Rightarrow> filterFunc" where
  "toFilterFunc pp = (\<lambda>ctx pods. (filter (pp (Req ctx)) pods, None))"

text \<open>
  Modelled from the spec: the predicate of the low-queue filter, outside the files at
  hand: the queue depth is at most the threshold.
\<close>

definition queueThresholdPredicate :: "int \<Rightarrow> podPredicate" where
  "queueThresholdPredicate queueThreshold = (\<lambda>req pod. QueueDepth (Metrics pod) \<le> queueThreshold)"

text \<open>
  Modelled from the spec: the KV-cache predicate, outside the files at hand: the
  utilisation is at most the threshold.
\<close>

definition kvCacheThresholdPredicate :: "real \<Rightarrow> podPredicate" where
  "kvCacheThresholdPredicate kvCacheThreshold =
     (\<lambda>req pod. KVCacheUtilization (Metrics pod) \<le> kvCacheThreshold)"

text \<open>
  Modelled from the spec: the method \<open>and\<close> of predicates, outside the files at hand:
  the conjunction.
\<close>

definition and_pred :: "podPredicate \<Rightarrow> podPredicate \<Rightarrow> podPredicate" where
  "and_pred pp another = (\<lambda>req pod. pp req pod \<and> another req pod)"

text \<open>
  Modelled from the spec: the LoRA-affinity predicate, outside the files at hand. A pod
  stays when it has the requested adapter loaded or has a free slot; the requested
  adapter is the request's model name, and a request that names none leaves every pod in.
\<close>

definition loRAAffinityPredicate :: podPredicate where
  "loRAAffinityPredicate =
     (\<lambda>req pod.
        (case req of
           None \<Rightarrow> True
         | Some r \<Rightarrow>
             Model r = '''' \<or> Model r \<in> set (ActiveLoRAAdapters (Metrics pod))
             \<or> int (length (remdups (ActiveLoRAAdapters (Metrics pod)))) < MaxLoRASlots (Metrics pod)))"

text \<open>
  Modelled from the spec: the least-queue filter function, outside the files at hand:
  the pods whose queue depth is the least of the input.
\<close>

definition leastQueuingFilterFunc :: filterFunc where
  "leastQueuingFilterFunc =
     (\<lambda>ctx pods.
        (case pods of
           [] \<Rightarrow> ([], None)
         | p # ps \<Rightarrow>
             (let least = fold (\<lambda>q m. min (QueueDepth (Metrics q)) m) ps (QueueDepth (Metrics p))
              in (filter (\<lambda>q. QueueDepth (Metrics q) = least) pods, None))))"

text \<open>
  Modelled from the spec: the least-KV-cache filter function, outside the files at hand:
  the pods whose utilisation is the least of the input.
\<close>

definition leastKVCacheFilterFunc :: filterFunc where
  "leastKVCacheFilterFunc =
     (\<lambda>ctx pods.
        (case pods of
           [] \<Rightarrow> ([], None)
         | p # ps \<Rightarrow>
             (let least = fold (\<lambda>q m. min (KVCacheUtilization (Metrics q)) m) ps
                            (KVCacheUtilization (Metrics p))
              in (filter (\<lambda>q. KVCacheUtilization (Metrics q) = least) pods, None))))"

text \<open>
  Modelled from the spec: the four basic filters of the low-latency tree are declared
  outside the files at hand; each wraps the function above that the spec gives it.
\<close>

definition lowQueueFilter :: "Config \<Rightarrow> Filter" where
  "lowQueueFilter config =
     basicFilter ''low queueing filter''
       (toFilterFunc (queueThresholdPredicate (QueueThresholdCritical config)))"

definition leastQueueFilter :: Filter where
  "leastQueueFilter = basicFilter ''least queuing'' leastQueuingFilterFunc"

definition leastKVCacheFilter :: Filter where
  "leastKVCacheFilter = basicFilter ''least KV cache percent'' leastKVCacheFilterFunc"

definition loRAAffinityFilter :: Filter where
  "loRAAffinityFilter = basicFilter ''affinity LoRA'' (toFilterFunc loRAAffinityPredicate)"

text \<open>
  The filters and trees that the scheduler file declares: the capacity filter, the drop
  filter, the low-latency tree and the tree for sheddable requests.
\<close>

definition hasCapacityFilter :: "Config \<Rightarrow> Filter" where
  "hasCapacityFilter config =
     basicFilter ''has capacity for sheddable requests''
       (toFilterFunc (and_pred (queueThresholdPredicate (QueueThresholdCritical config))
                               (kvCacheThresholdPredicate (KVCacheThreshold config))))"

definition dropRequestFilter :: Filter where
  "dropRequestFilter =
     basicFilter ''drop request''
       (\<lambda>ctx pods.
          ([], Some (ErrutilError InferencePoolResourceExhausted
                       ''dropping request due to limited backend resources'')))"

definition lowLatencyFilter :: "Config \<Rightarrow> Filter" where
  "lowLatencyFilter config =
     decisionTreeFilter (lowQueueFilter config)
       (Some (decisionTreeFilter loRAAffinityFilter None None
          (Some (decisionTreeFilter leastQueueFilter None None
             (Some (decisionTreeFilter leastKVCacheFilter None None None))))))
       (Some (decisionTreeFilter leastQueueFilter None None
          (Some (decisionTreeFilter loRAAffinityFilter None None
             (Some (decisionTreeFilter leastKVCacheFilter None None None))))))
       None"

definition sheddableRequestFilter :: "Config \<Rightarrow> Filter" where
  "sheddableRequestFilter config =
     decisionTreeFilter (hasCapacityFilter config)
       (Some (lowLatencyFilter config))
       (Some dropRequestFilter)
       None"

section \<open>Scorer manager\<close>

text \<open>
  The \<open>Scorer\<close> interface with its two implementations. The session-affinity scorer
  reads the datastore the scheduler shares; the KV-cache scorer holds its indexer and is
  handed the pods as pointers.
\<close>

datatype Scorer = SessionAffinityScorer | KVCacheAwareScorer Indexer

definition Scorer_ScoreTargets ::
  "datastore \<Rightarrow> Scorer \<Rightarrow> Context \<Rightarrow> PodMetrics list \<Rightarrow> failure + PodScore list" where
  "Scorer_ScoreTargets ds s ctx pods =
     (case s of
        SessionAffinityScorer \<Rightarrow> SessionAffinityScorer_ScoreTargets ds ctx pods
      | KVCacheAwareScorer indexer \<Rightarrow> KVCacheAwareScorer_ScoreTargets indexer ctx (map Some pods))"

type_synonym ScorerManager = "(Scorer \<times> real) list"

text \<open>
  Modelled from the spec: the scorer manager is outside the files at hand. It holds
  scorers with their weights, runs each and fails with the first failure.
\<close>

fun runScorers ::
  "datastore \<Rightarrow> ScorerManager \<Rightarrow> Context \<Rightarrow> PodMetrics list
    \<Rightarrow> failure + (real \<times> PodScore list) list" where
  "runScorers ds [] ctx pods = Inr []"
| "runScorers ds ((s, weight) # rest) ctx pods =
     (case Scorer_ScoreTargets ds s ctx pods of
        Inl f \<Rightarrow> Inl f
      | Inr scored \<Rightarrow>
          (case runScorers ds rest ctx pods of
             Inl f \<Rightarrow> Inl f
           | Inr others \<Rightarrow> Inr ((weight, scored) # others)))"

text \<open>
  Modelled from the spec: the combined score of a pod is the sum over the scorers of
  weight times score; a pod that a scorer left out contributes nothing.
\<close>

definition combinedScore :: "(real \<times> PodScore list) list \<Rightarrow> PodMetrics \<Rightarrow> real" where
  "combinedScore results pod =
     sum_list (map (\<lambda>(weight, scored).
        sum_list (map (\<lambda>e. weight * ps_Score e) (filter (\<lambda>e. ps_Pod e = pod) scored))) results)"

text \<open>
  Modelled from the spec: the pods of greatest combined score, in order.
\<close>

definition topPods :: "(real \<times> PodScore list) list \<Rightarrow> PodMetrics list \<Rightarrow> PodMetrics list" where
  "topPods results pods =
     (case pods of
        [] \<Rightarrow> []
      | p # ps \<Rightarrow>
          (let best = fold (\<lambda>q m. max (combinedScore results q) m) ps (combinedScore results p)
           in filter (\<lambda>q. combinedScore results q = best) pods))"

text \<open>
  Modelled from the spec: \<open>ScorerManager.ScoreTargets\<close> returns the pod that the
  random picker draws among the pods of greatest combined score.
\<close>

definition ScorerManager_ScoreTargets ::
  "nat \<Rightarrow> datastore \<Rightarrow> ScorerManager \<Rightarrow> Context \<Rightarrow> PodMetrics list \<Rightarrow> failure + PodMetrics" where
  "ScorerManager_ScoreTargets r ds mgr ctx pods =
     (case runScorers ds mgr ctx pods of
        Inl f \<Rightarrow> Inl f
      | Inr results \<Rightarrow>
          (case RandomPicker_Pick r (topPods results pods) of
             Inl f \<Rightarrow> Inl f
           | Inr res \<Rightarrow> Inr (TargetPod res)))"

section \<open>Scheduler\<close>

text \<open>
  Modelled from the spec: \<open>ToSchedulerPodMetrics\<close> is outside the files at hand. The
  snapshot is a copy of every handle of the datastore.
\<close>

definition ToSchedulerPodMetrics :: "PodMetrics list \<Rightarrow> PodMetrics list" where
  "ToSchedulerPodMetrics pods = map (\<lambda>pod. \<lparr>Pod = Pod pod, Metrics = Metrics pod\<rparr>) pods"

text \<open>
  Modelled from the spec: \<open>NewContext\<close> is outside the files at hand. It freezes the
  request and the snapshot into the context of the call.
\<close>

definition NewContext :: "LLMRequest \<Rightarrow> PodMetrics list \<Rightarrow> Context" where
  "NewContext req pods = \<lparr>Req = Some req, PodsSnapshot = pods\<rparr>"

record Scheduler =
  sched_datastore :: datastore
  sched_criticalRequestFilter :: Filter
  sched_sheddableRequestFilter :: Filter
  sched_scorerMng :: ScorerManager

text \<open>
  \<open>NewScheduler\<close> with the indexer of the KV-cache scorer it creates; the configuration
  is the one loaded at start.
\<close>

definition NewScheduler :: "Config \<Rightarrow> Indexer \<Rightarrow> datastore \<Rightarrow> Scheduler" where
  "NewScheduler config indexer ds =
     \<lparr>sched_datastore = ds,
      sched_criticalRequestFilter = lowLatencyFilter config,
      sched_sheddableRequestFilter = sheddableRequestFilter config,
      sched_scorerMng = [(SessionAffinityScorer, 1), (KVCacheAwareScorer indexer, 5)]\<rparr>"

text \<open>
  \<open>Schedule\<close>; \<open>r\<close> is the draw of the picker. The filter's error, nil or not, is
  wrapped with \<open>%w\<close> when the filter fails or leaves no pod.
\<close>

definition Schedule :: "nat \<Rightarrow> Scheduler \<Rightarrow> LLMRequest \<Rightarrow> failure + PodMetrics" where
  "Schedule r s req =
     (let sCtx = NewContext req (ToSchedulerPodMetrics (PodGetAll (sched_datastore s)));
          flt = (if Critical req then sched_criticalRequestFilter s
                 else sched_sheddableRequestFilter s)
      in (case Filter_Filter flt sCtx (PodsSnapshot sCtx) of
            (pods, err) \<Rightarrow>
              if err \<noteq> None \<or> length pods = 0
              then Inl (Error (Errorf
                     ''failed to apply filter, resulted %v pods, this should never happen: %w'' err))
              else (case ScorerManager_ScoreTargets r (sched_datastore s) (sched_scorerMng s) sCtx pods of
                      Inl (Error e) \<Rightarrow> Inl (Error (Errorf ''failed to apply scorers: %w'' (Some e)))
                    | Inl (Panic p) \<Rightarrow> Inl (Panic p)
                    | Inr selectedPod \<Rightarrow> Inr selectedPod)))"

section \<open>Auxiliary predicates and example data\<close>

text \<open>A filter narrows when each of its basic filters returns pods of its input only.\<close>

fun Filter_narrows :: "Filter \<Rightarrow> bool" where
  "Filter_narrows (basicFilter name f) = (\<forall>ctx pods. set (fst (f ctx pods)) \<subseteq> set pods)"
| "Filter_narrows (decisionTreeFilter current nextOnSuccess nextOnFailure nextOnSuccessOrFailure) =
     (Filter_narrows current
      \<and> (case nextOnSuccess of None \<Rightarrow> True | Some next \<Rightarrow> Filter_narrows next)
      \<and> (case nextOnFailure of None \<Rightarrow> True | Some next \<Rightarrow> Filter_narrows next)
      \<and> (case nextOnSuccessOrFailure of None \<Rightarrow> True | Some next \<Rightarrow> Filter_narrows next))"

text \<open>The datastore as \<open>NewDatastore\<close> creates it, and a store holding given handles.\<close>

definition NewDatastore :: datastore where
  "NewDatastore = \<lparr>ds_pool = None, ds_models = Map.empty, ds_pods = [], ds_sessions = Map.empty\<rparr>"

definition storeOf :: "PodMetrics list \<Rightarrow> datastore" where
  "storeOf pms = NewDatastore\<lparr>ds_pods := map (\<lambda>pm. (NamespacedName (Pod pm), pm)) pms\<rparr>"

definition podA :: PodMetrics where
  "podA =
     \<lparr>Pod = \<lparr>NamespacedName = \<lparr>Namespace = ''default'', Name = ''pod-a''\<rparr>, Address = ''10.0.0.1''\<rparr>,
      Metrics = \<lparr>QueueDepth = 0, KVCacheUtilization = 2 / 10, ActiveLoRAAdapters = [],
                 MaxLoRASlots = 4, Ready = True\<rparr>\<rparr>"

definition podB :: PodMetrics where
  "podB =
     \<lparr>Pod = \<lparr>NamespacedName = \<lparr>Namespace = ''default'', Name = ''pod-b''\<rparr>, Address = ''10.0.0.2''\<rparr>,
      Metrics = \<lparr>QueueDepth = 3, KVCacheUtilization = 5 / 10, ActiveLoRAAdapters = [],
                 MaxLoRASlots = 4, Ready = True\<rparr>\<rparr>"

definition busyPod :: PodMetrics where
  "busyPod =
     \<lparr>Pod = \<lparr>NamespacedName = \<lparr>Namespace = ''default'', Name = ''pod-c''\<rparr>, Address = ''10.0.0.3''\<rparr>,
      Metrics = \<lparr>QueueDepth = 10, KVCacheUtilization = 95 / 100, ActiveLoRAAdapters = [],
                 MaxLoRASlots = 4, Ready = True\<rparr>\<rparr>"

definition failingIndexer :: Indexer where
  "failingIndexer prompt model podIdentifiers = Inl (ErrorsNew ''connection refused'')"

definition exampleIndexer :: Indexer where
  "exampleIndexer prompt model podIdentifiers =
     Inr [\<lparr>ips_Name = ''10.0.0.1'', ips_Score = 9 / 10\<rparr>,
          \<lparr>ips_Name = ''10.0.0.2'', ips_Score = 1 / 10\<rparr>,
          \<lparr>ips_Name = ''10.0.0.9'', ips_Score = 1\<rparr>]"

definition exampleRequest :: "bool \<Rightarrow> LLMRequest" where
  "exampleRequest critical =
     \<lparr>Model = ''m'', Prompt = ''hello'', SessionID = '''', Critical = critical\<rparr>"

definition sessionRequest :: LLMRequest where
  "sessionRequest = \<lparr>Model = ''m'', Prompt = ''hello'', SessionID = ''s1'', Critical = True\<rparr>"

definition examplePool :: InferencePool where
  "examplePool =
     \<lparr>pool_Name = ''pool'', pool_Namespace = ''default'',
      Selector = [(''app'', ''vllm'')]\<rparr>"

definition exampleLabels :: "string \<rightharpoonup> string" where
  "exampleLabels = [''app'' \<mapsto> ''vllm'', ''zone'' \<mapsto> ''a'']"

definition modelAt :: "string \<Rightarrow> int \<Rightarrow> InferenceModel" where
  "modelAt ns t =
     \<lparr>meta_Name = ''m'', meta_Namespace = ns, CreationTimestamp = t, Spec_ModelName = ''m''\<rparr>"

definition scoredA :: ScoredPod where
  "scoredA = \<lparr>sp_Pod = podA, sp_Score = 1\<rparr>"

definition scoredB :: ScoredPod where
  "scoredB = \<lparr>sp_Pod = podB, sp_Score = 1\<rparr>"

definition sessionStore :: datastore where
  "sessionStore = SetPodForSession 0 (storeOf [podA, podB]) ''s1'' (Some (Pod podA))"

definition poolStore :: datastore where
  "poolStore = PoolSet NewDatastore (Some examplePool)"

definition modelStore :: datastore where
  "modelStore = NewDatastore\<lparr>ds_models := [''m'' \<mapsto> modelAt ''ns1'' 1]\<rparr>"

section \<open>The datastore: clearing, deleting pods, the pool selector, the model registry\<close>

lemma filter_absent_key:
  "map_of m k = None \<Longrightarrow> filter (\<lambda>kv. fst kv \<noteq> k) m = m"
  by (induction m) (auto split: if_splits)

lemma map_of_filter_key:
  "map_of (filter (\<lambda>kv. fst kv \<noteq> k) m) k = None"
  by (induction m) auto

lemma PodDelete_absent:
  "map_of (ds_pods ds) k = None \<Longrightarrow> PodDelete ds k = (ds, [])"
  by (simp add: PodDelete_def LoadAndDelete_def filter_absent_key)

lemma PodDelete_present:
  "map_of (ds_pods ds) k = Some pm \<Longrightarrow>
   PodDelete ds k = (ds\<lparr>ds_pods := filter (\<lambda>kv. fst kv \<noteq> k) (ds_pods ds)\<rparr>, [pm])"
  by (simp add: PodDelete_def LoadAndDelete_def)

lemma PodDelete_seq_absent:
  "map_of (ds_pods ds) k = None \<Longrightarrow> PodDelete_seq ds (replicate n k) = (ds, [])"
  by (induction n) (simp_all add: PodDelete_absent)

text \<open>
  Claim C7. After \<open>Clear\<close> the pool is unset, so \<open>PoolHasSynced\<close> is false, the model
  registry is empty and the pod map is empty, whatever the store held; the session table
  is untouched, and \<open>GetPodForSession\<close> answers every session id as it did before.
\<close>

theorem Clear_keeps_sessions:
  "\<not> PoolHasSynced (Clear ds) \<and> ds_pool (Clear ds) = None
   \<and> ds_models (Clear ds) = Map.empty \<and> (\<forall>modelName. ModelGet (Clear ds) modelName = None)
   \<and> ds_pods (Clear ds) = [] \<and> PodGetAll (Clear ds) = []
   \<and> ds_sessions (Clear ds) = ds_sessions ds
   \<and> (\<forall>sessionID. GetPodForSession (Clear ds) sessionID = GetPodForSession ds sessionID)"
  by (simp add: Clear_def PoolHasSynced_def ModelGet_def PodGetAll_def PodList_def
      GetPodForSession_def)

text \<open>
  Claim C8. For a key the pod map holds: the first \<open>PodDelete\<close> removes the entry and
  invokes \<open>StopRefreshLoop\<close> on its handle; any number of further calls on the key
  leave the store as it is and invoke nothing; so over a whole sequence of one or more
  calls \<open>StopRefreshLoop\<close> is invoked exactly once, on that handle.
\<close>

theorem PodDelete_stops_refresh_once:
  assumes "map_of (ds_pods ds) k = Some pm"
  shows "PodDelete ds k = (ds\<lparr>ds_pods := filter (\<lambda>kv. fst kv \<noteq> k) (ds_pods ds)\<rparr>, [pm])
    \<and> map_of (ds_pods (fst (PodDelete ds k))) k = None
    \<and> (\<forall>n. PodDelete_seq (fst (PodDelete ds k)) (replicate n k) = (fst (PodDelete ds k), []))
    \<and> (\<forall>n. PodDelete_seq ds (replicate (Suc n) k) = (fst (PodDelete ds k), [pm]))"
proof -
  let ?ds1 = "ds\<lparr>ds_pods := filter (\<lambda>kv. fst kv \<noteq> k) (ds_pods ds)\<rparr>"
  have first: "PodDelete ds k = (?ds1, [pm])"
    using assms by (rule PodDelete_present)
  have gone: "map_of (ds_pods ?ds1) k = None"
    by (simp add: map_of_filter_key)
  have later: "PodDelete_seq ?ds1 (replicate n k) = (?ds1, [])" for n
    using gone by (rule PodDelete_seq_absent)
  have whole: "PodDelete_seq ds (replicate (Suc n) k) = (?ds1, [pm])" for n
    using later [of n] by (simp add: first)
  show ?thesis
    using gone later whole by (simp add: first)
qed

text \<open>
  The claim at a store of two pods: deleting the first pod's key three times stops its
  handle once and leaves the other pod.
\<close>

theorem PodDelete_stops_refresh_once_witness:
  "map_of (ds_pods (storeOf [podA, podB])) (NamespacedName (Pod podA)) = Some podA
   \<and> PodDelete (storeOf [podA, podB]) (NamespacedName (Pod podA)) = (storeOf [podB], [podA])
   \<and> PodDelete_seq (storeOf [podB]) (replicate 2 (NamespacedName (Pod podA))) = (storeOf [podB], [])
   \<and> PodDelete_seq (storeOf [podA, podB]) (replicate 3 (NamespacedName (Pod podA)))
       = (storeOf [podB], [podA])"
proof -
  have h: "map_of (ds_pods (storeOf [podA, podB])) (NamespacedName (Pod podA)) = Some podA"
    by (simp add: storeOf_def NewDatastore_def)
  have rest: "(storeOf [podA, podB])\<lparr>ds_pods :=
      filter (\<lambda>kv. fst kv \<noteq> NamespacedName (Pod podA)) (ds_pods (storeOf [podA, podB]))\<rparr>
    = storeOf [podB]"
    by (simp add: storeOf_def NewDatastore_def podA_def podB_def)
  have three: "Suc 2 = 3"
    by simp
  note T = PodDelete_stops_refresh_once [OF h]
  from T have "PodDelete (storeOf [podA, podB]) (NamespacedName (Pod podA))
      = ((storeOf [podA, podB])\<lparr>ds_pods :=
           filter (\<lambda>kv. fst kv \<noteq> NamespacedName (Pod podA)) (ds_pods (storeOf [podA, podB]))\<rparr>,
         [podA])"
    by (rule conjunct1)
  then have d: "PodDelete (storeOf [podA, podB]) (NamespacedName (Pod podA)) = (storeOf [podB], [podA])"
    by (simp only: rest)
  then have f: "fst (PodDelete (storeOf [podA, podB]) (NamespacedName (Pod podA))) = storeOf [podB]"
    by (simp only: fst_conv)
  from T have "PodDelete_seq (fst (PodDelete (storeOf [podA, podB]) (NamespacedName (Pod podA))))
        (replicate 2 (NamespacedName (Pod podA)))
       = (fst (PodDelete (storeOf [podA, podB]) (NamespacedName (Pod podA))), [])"
    by blast
  then have s2: "PodDelete_seq (storeOf [podB]) (replicate 2 (NamespacedName (Pod podA)))
       = (storeOf [podB], [])"
    by (simp only: f)
  from T have "PodDelete_seq (storeOf [podA, podB]) (replicate (Suc 2) (NamespacedName (Pod podA)))
       = (fst (PodDelete (storeOf [podA, podB]) (NamespacedName (Pod podA))), [podA])"
    by blast
  then have s3: "PodDelete_seq (storeOf [podA, podB]) (replicate 3 (NamespacedName (Pod podA)))
       = (storeOf [podB], [podA])"
    by (simp only: f three)
  from h d s2 s3 show ?thesis
    by blast
qed

text \<open>
  Claim C10. \<open>PoolLabelsMatch\<close> returns only when the pool is set: with no pool
  (\<open>PoolHasSynced\<close> false) it dereferences nil and panics; with a pool it returns,
  for every label map, whether each label of the pool's selector is in the map with the
  selector's value, and does not panic.
\<close>

theorem PoolLabelsMatch_needs_pool:
  "(\<not> PoolHasSynced ds \<longrightarrow> PoolLabelsMatch ds podLabels = Inl nilDereference)
   \<and> (PoolHasSynced ds \<longrightarrow>
        (\<exists>p. ds_pool ds = Some p
           \<and> PoolLabelsMatch ds podLabels
               = Inr (\<forall>(k, v) \<in> set (Selector p). podLabels k = Some v)))"
  by (cases "ds_pool ds")
     (auto simp: PoolHasSynced_def PoolLabelsMatch_def Matches_def
        selectorFromInferencePoolSelector_def SelectorFromSet_def
        stripLabelKeyAliasFromLabelMap_def list_all_iff)

text \<open>
  The claim at a fresh store, which panics, and at a store whose pool selects
  \<open>app = vllm\<close>, which admits labels with that entry and rejects the empty label map.
\<close>

theorem PoolLabelsMatch_needs_pool_witness:
  "\<not> PoolHasSynced NewDatastore
   \<and> PoolLabelsMatch NewDatastore exampleLabels = Inl nilDereference
   \<and> PoolHasSynced poolStore
   \<and> PoolLabelsMatch poolStore exampleLabels = Inr True
   \<and> PoolLabelsMatch poolStore Map.empty = Inr False"
proof -
  have a: "\<not> PoolHasSynced NewDatastore"
    by (simp add: PoolHasSynced_def NewDatastore_def)
  have b: "PoolHasSynced poolStore"
    by (simp add: PoolHasSynced_def poolStore_def PoolSet_def)
  have p: "ds_pool poolStore = Some examplePool"
    by (simp add: poolStore_def PoolSet_def)
  from PoolLabelsMatch_needs_pool [of NewDatastore exampleLabels] a
  have 1: "PoolLabelsMatch NewDatastore exampleLabels = Inl nilDereference"
    by blast
  from PoolLabelsMatch_needs_pool [of poolStore exampleLabels] b p
  have 2: "PoolLabelsMatch poolStore exampleLabels = Inr True"
    by (simp add: examplePool_def exampleLabels_def)
  from PoolLabelsMatch_needs_pool [of poolStore Map.empty] b p
  have 3: "PoolLabelsMatch poolStore Map.empty = Inr False"
    by (simp add: examplePool_def)
  from a b 1 2 3 show ?thesis
    by blast
qed

text \<open>
  Claim C5. \<open>ModelSetIfOlder\<close> installs the incoming model under its model name,
  except when the entry under that name is another object (another name or namespace)
  created strictly earlier, in which case the store is left as it is; an entry that is
  the same object by name and namespace is replaced whatever the timestamps; and the
  call returns true exactly when the store holds the incoming model afterwards.
\<close>

theorem ModelSetIfOlder_keeps_older:
  "(let key = Spec_ModelName m;
        keep = (\<exists>existing. ds_models ds key = Some existing
                  \<and> (meta_Name m \<noteq> meta_Name existing \<or> meta_Namespace m \<noteq> meta_Namespace existing)
                  \<and> CreationTimestamp existing < CreationTimestamp m);
        same = (\<exists>existing. ds_models ds key = Some existing
                  \<and> meta_Name m = meta_Name existing \<and> meta_Namespace m = meta_Namespace existing);
        ds' = snd (ModelSetIfOlder ds m)
    in (keep \<longrightarrow> ds' = ds)
     \<and> (\<not> keep \<longrightarrow> ds' = ds\<lparr>ds_models := (ds_models ds)(key \<mapsto> m)\<rparr>)
     \<and> (same \<longrightarrow> ds_models ds' key = Some m)
     \<and> (fst (ModelSetIfOlder ds m) \<longleftrightarrow> ds_models ds' key = Some m))"
  by (cases "ds_models ds (Spec_ModelName m)")
     (auto simp: ModelSetIfOlder_def Let_def)

text \<open>
  The claim at a registry holding a model created at time 1 in namespace \<open>ns1\<close>: a
  model of the same name from \<open>ns2\<close> is refused when created at time 2 and installed
  when created at time 0; the object of \<open>ns1\<close> itself, re-created at time 5, is installed.
\<close>

theorem ModelSetIfOlder_keeps_older_witness:
  "ModelSetIfOlder modelStore (modelAt ''ns2'' 2) = (False, modelStore)
   \<and> ModelGet (snd (ModelSetIfOlder modelStore (modelAt ''ns2'' 2))) ''m'' = Some (modelAt ''ns1'' 1)
   \<and> fst (ModelSetIfOlder modelStore (modelAt ''ns2'' 0))
   \<and> ModelGet (snd (ModelSetIfOlder modelStore (modelAt ''ns2'' 0))) ''m'' = Some (modelAt ''ns2'' 0)
   \<and> fst (ModelSetIfOlder modelStore (modelAt ''ns1'' 5))
   \<and> ModelGet (snd (ModelSetIfOlder modelStore (modelAt ''ns1'' 5))) ''m'' = Some (modelAt ''ns1'' 5)"
proof -
  have m: "ds_models modelStore ''m'' = Some (modelAt ''ns1'' 1)"
    by (simp add: modelStore_def NewDatastore_def)
  have neq: "modelAt ''ns2'' 2 \<noteq> modelAt ''ns1'' 1"
    by (simp add: modelAt_def)
  from ModelSetIfOlder_keeps_older [of "modelAt ''ns2'' 2" modelStore] m neq
  have 1: "snd (ModelSetIfOlder modelStore (modelAt ''ns2'' 2)) = modelStore
           \<and> \<not> fst (ModelSetIfOlder modelStore (modelAt ''ns2'' 2))"
    by (simp add: Let_def modelAt_def)
  from ModelSetIfOlder_keeps_older [of "modelAt ''ns2'' 0" modelStore] m
  have 2: "fst (ModelSetIfOlder modelStore (modelAt ''ns2'' 0))
           \<and> ds_models (snd (ModelSetIfOlder modelStore (modelAt ''ns2'' 0))) ''m''
               = Some (modelAt ''ns2'' 0)"
    by (simp add: Let_def modelAt_def)
  from ModelSetIfOlder_keeps_older [of "modelAt ''ns1'' 5" modelStore] m
  have 3: "fst (ModelSetIfOlder modelStore (modelAt ''ns1'' 5))
           \<and> ds_models (snd (ModelSetIfOlder modelStore (modelAt ''ns1'' 5))) ''m''
               = Some (modelAt ''ns1'' 5)"
    by (simp add: Let_def modelAt_def)
  from 1 have "ModelSetIfOlder modelStore (modelAt ''ns2'' 2) = (False, modelStore)"
    by (cases "ModelSetIfOlder modelStore (modelAt ''ns2'' 2)") simp
  with 1 2 3 m show ?thesis
    by (simp add: ModelGet_def)
qed

section \<open>Pickers\<close>

lemma RandomPicker_Pick_member:
  "RandomPicker_Pick r pods = Inr res \<Longrightarrow> TargetPod res \<in> set pods"
  by (auto simp: RandomPicker_Pick_def rand_Intn_def split: if_splits)

text \<open>
  Claim C9. Given at least one candidate, \<open>RandomPicker.Pick\<close> returns a result whose
  target pod is one of the candidates, whatever the draw, and does not reach the panic
  of \<open>rand.Intn\<close>.
\<close>

theorem RandomPicker_Pick_in_candidates:
  "pods \<noteq> [] \<Longrightarrow>
   (\<exists>p. RandomPicker_Pick r pods = Inr \<lparr>TargetPod = p\<rparr> \<and> p \<in> set pods)
   \<and> (\<forall>f. RandomPicker_Pick r pods \<noteq> Inl f)"
  by (simp add: RandomPicker_Pick_def rand_Intn_def)

text \<open>The claim at two candidates and the draw 3.\<close>

theorem RandomPicker_Pick_in_candidates_witness:
  "[podA, podB] \<noteq> []
   \<and> (\<exists>p. RandomPicker_Pick 3 [podA, podB] = Inr \<lparr>TargetPod = p\<rparr> \<and> p \<in> set [podA, podB])
   \<and> RandomPicker_Pick 3 [podA, podB] \<noteq> Inl (Panic ''invalid argument to Intn'')"
proof -
  have ne: "[podA, podB] \<noteq> []"
    by simp
  from RandomPicker_Pick_in_candidates [OF ne, of 3] ne show ?thesis
    by blast
qed

subsection \<open>The LRU picker with one candidate\<close>

lemma LRUPicker_Pick_single_known:
  assumes "c (NamespacedName (GetPod a)) = Some n" and "n \<le> 100000"
  shows "LRUPicker_Pick r c [a] = (Inr \<lparr>TargetPod = a\<rparr>, c(NamespacedName (GetPod a) \<mapsto> n + 1))"
  using assms by (simp add: LRUPicker_Pick_def Let_def cacheGet_def)

lemma LRUPicker_Pick_single_unknown:
  assumes "c (NamespacedName (GetPod a)) = None"
  shows "LRUPicker_Pick r c [a] = (Inr \<lparr>TargetPod = a\<rparr>, c(NamespacedName (GetPod a) \<mapsto> 1))"
  using assms by (simp add: LRUPicker_Pick_def Let_def cacheGet_def)

lemma LRUPicker_Pick_single_beyond:
  assumes "c (NamespacedName (GetPod a)) = Some n" and "100000 < n"
  shows "LRUPicker_Pick r c [a] = (Inl (Panic ''invalid argument to Intn''), c)"
  using assms
  by (simp add: LRUPicker_Pick_def Let_def cacheGet_def RandomPicker_Pick_def rand_Intn_def)

lemma LRUPicker_Pick_repeated:
  "n \<le> 100000 \<Longrightarrow>
   ((\<lambda>c. snd (LRUPicker_Pick r c [a])) ^^ Suc n) Map.empty
     = [NamespacedName (GetPod a) \<mapsto> int n + 1]"
proof (induction n)
  case 0
  then show ?case
    by (simp add: LRUPicker_Pick_single_unknown)
next
  case (Suc n)
  let ?f = "\<lambda>c. snd (LRUPicker_Pick r c [a])"
  let ?k = "NamespacedName (GetPod a)"
  from Suc.prems have le: "int n + 1 \<le> 100000"
    by simp
  from Suc.prems have "n \<le> 100000"
    by simp
  then have prev: "(?f ^^ Suc n) Map.empty = [?k \<mapsto> int n + 1]"
    by (rule Suc.IH)
  have "(?f ^^ Suc (Suc n)) Map.empty = ?f ((?f ^^ Suc n) Map.empty)"
    by (simp only: funpow.simps o_apply)
  also have "\<dots> = ?f [?k \<mapsto> int n + 1]"
    by (simp only: prev)
  also have "\<dots> = [?k \<mapsto> int n + 1](?k \<mapsto> (int n + 1) + 1)"
    using LRUPicker_Pick_single_known [of "[?k \<mapsto> int n + 1]" a "int n + 1" r] le
    by simp
  also have "\<dots> = [?k \<mapsto> int (Suc n) + 1]"
    by simp
  finally show ?case .
qed

text \<open>
  Claim C6, at the input where the code departs from it. The loop starts its least usage
  at the constant 100000. Picking among the single candidate \<open>scoredA\<close> 100001 times,
  from the empty usage map, brings its count to 100001; at the next call no candidate is
  at or below the constant, the list of best pods stays empty, and the call panics in
  \<open>rand.Intn 0\<close> instead of returning the candidate of least usage. The usage map is
  left as it was.
\<close>

theorem LRUPicker_Pick_panics_beyond_sentinel:
  "((\<lambda>c. snd (LRUPicker_Pick r c [scoredA])) ^^ 100001) Map.empty
     = [NamespacedName (GetPod scoredA) \<mapsto> 100001]
   \<and> LRUPicker_Pick r [NamespacedName (GetPod scoredA) \<mapsto> 100001] [scoredA]
     = (Inl (Panic ''invalid argument to Intn''), [NamespacedName (GetPod scoredA) \<mapsto> 100001])"
proof -
  have "((\<lambda>c. snd (LRUPicker_Pick r c [scoredA])) ^^ Suc 100000) Map.empty
     = [NamespacedName (GetPod scoredA) \<mapsto> int 100000 + 1]"
    by (rule LRUPicker_Pick_repeated) simp
  then have reach: "((\<lambda>c. snd (LRUPicker_Pick r c [scoredA])) ^^ 100001) Map.empty
     = [NamespacedName (GetPod scoredA) \<mapsto> 100001]"
    by simp
  have "LRUPicker_Pick r [NamespacedName (GetPod scoredA) \<mapsto> 100001] [scoredA]
     = (Inl (Panic ''invalid argument to Intn''), [NamespacedName (GetPod scoredA) \<mapsto> 100001])"
    by (rule LRUPicker_Pick_single_beyond [where n = 100001]) simp_all
  with reach show ?thesis
    by simp
qed

subsection \<open>The LRU picker below the constant\<close>

lemma fold_min_le_start:
  "fold (\<lambda>p a. min (u p) a) xs (m::int) \<le> m"
proof (induction xs arbitrary: m)
  case Nil
  then show ?case by simp
next
  case (Cons x xs)
  have "fold (\<lambda>p a. min (u p) a) xs (min (u x) m) \<le> min (u x) m"
    by (rule Cons.IH)
  then show ?case by simp
qed

lemma fold_min_le_elem:
  "p \<in> set xs \<Longrightarrow> fold (\<lambda>p a. min (u p) a) xs (m::int) \<le> u p"
proof (induction xs arbitrary: m)
  case Nil
  then show ?case by simp
next
  case (Cons x xs)
  show ?case
  proof (cases "p = x")
    case True
    have "fold (\<lambda>p a. min (u p) a) xs (min (u x) m) \<le> min (u x) m"
      by (rule fold_min_le_start)
    with True show ?thesis by simp
  next
    case False
    with Cons.prems have "p \<in> set xs" by simp
    then show ?thesis using Cons.IH by simp
  qed
qed

lemma fold_min_attained:
  "fold (\<lambda>p a. min (u p) a) xs (m::int) = m
   \<or> (\<exists>p \<in> set xs. fold (\<lambda>p a. min (u p) a) xs m = u p)"
proof (induction xs arbitrary: m)
  case Nil
  then show ?case by simp
next
  case (Cons x xs)
  from Cons.IH [of "min (u x) m"] show ?case
    by (auto simp: min_def split: if_splits)
qed

text \<open>
  What the loop computes: unknown candidates enter the usage map with count 0, the least
  usage is the least of the start value and the candidates' counts, and the best pods
  are the candidates at that least usage, in order (after the best pods of the start,
  when the least usage is still the start value).
\<close>

lemma lru_loop_result:
  "lru_loop cands (c, best, m) =
     ((\<lambda>k. if c k = None \<and> k \<in> (\<lambda>p. NamespacedName (GetPod p)) ` set cands then Some 0 else c k),
      (if fold (\<lambda>p a. min (cacheGet c (NamespacedName (GetPod p))) a) cands m = m then best else [])
        @ filter (\<lambda>p. cacheGet c (NamespacedName (GetPod p))
                      = fold (\<lambda>p a. min (cacheGet c (NamespacedName (GetPod p))) a) cands m) cands,
      fold (\<lambda>p a. min (cacheGet c (NamespacedName (GetPod p))) a) cands m)"
proof (induction cands arbitrary: c best m)
  case Nil
  then show ?case by simp
next
  case (Cons p rest)
  let ?k = "NamespacedName (GetPod p)"
  let ?u = "\<lambda>c q. cacheGet c (NamespacedName (GetPod q))"
  let ?F = "\<lambda>m. fold (\<lambda>q a. min (?u c q) a) rest m"
  define c1 where "c1 = (case c ?k of Some u \<Rightarrow> c | None \<Rightarrow> c(?k \<mapsto> 0))"
  have u1: "cacheGet c1 k = cacheGet c k" for k
    by (simp add: c1_def cacheGet_def split: option.splits)
  have c1: "(\<lambda>k. if c1 k = None \<and> k \<in> (\<lambda>p. NamespacedName (GetPod p)) ` set rest then Some 0 else c1 k)
    = (\<lambda>k. if c k = None \<and> k \<in> (\<lambda>p. NamespacedName (GetPod p)) ` set (p # rest) then Some 0 else c k)"
    by (auto simp: c1_def fun_eq_iff split: option.splits)
  have step: "lru_loop (p # rest) (c, best, m) =
     (if ?u c p = m then lru_loop rest (c1, best @ [p], m)
      else if ?u c p < m then lru_loop rest (c1, [p], ?u c p)
      else lru_loop rest (c1, best, m))"
    by (cases "c ?k") (simp_all add: c1_def cacheGet_def Let_def)
  have IH: "lru_loop rest (c1, b, n) =
     ((\<lambda>k. if c k = None \<and> k \<in> (\<lambda>p. NamespacedName (GetPod p)) ` set (p # rest) then Some 0 else c k),
      (if ?F n = n then b else []) @ filter (\<lambda>q. ?u c q = ?F n) rest,
      ?F n)" for b n
    unfolding Cons.IH [of c1 b n] u1 c1 ..
  consider (eq) "?u c p = m" | (lt) "?u c p < m" | (gt) "m < ?u c p"
    by linarith
  then show ?case
  proof cases
    case eq
    have "?F m \<le> m" by (rule fold_min_le_start)
    with eq show ?thesis
      by (simp add: step IH del: lru_loop.simps)
  next
    case lt
    have "?F (?u c p) \<le> ?u c p" by (rule fold_min_le_start)
    with lt show ?thesis
      by (simp add: step IH min_def del: lru_loop.simps)
  next
    case gt
    have "?F m \<le> m" by (rule fold_min_le_start)
    with gt show ?thesis
      by (simp add: step IH min_def del: lru_loop.simps)
  qed
qed

text \<open>
  As long as some candidate has been used at most 100000 times, \<open>LRUPicker.Pick\<close> does
  what is expected of it: it returns a candidate of least usage (unknown pods counting
  as 0), whatever the draw, enters the unknown candidates with count 0 and raises the
  winner's count by one.
\<close>

lemma LRUPicker_Pick_least_used:
  assumes some: "p0 \<in> set scoredPods"
    and below: "cacheGet c (NamespacedName (GetPod p0)) \<le> 100000"
  shows "\<exists>w. w \<in> set scoredPods
     \<and> (\<forall>p \<in> set scoredPods. cacheGet c (NamespacedName (GetPod w))
                               \<le> cacheGet c (NamespacedName (GetPod p)))
     \<and> LRUPicker_Pick r c scoredPods =
         (Inr \<lparr>TargetPod = w\<rparr>,
          (\<lambda>k. if k = NamespacedName (GetPod w)
                then Some (cacheGet c (NamespacedName (GetPod w)) + 1)
                else if c k = None \<and> k \<in> (\<lambda>p. NamespacedName (GetPod p)) ` set scoredPods
                then Some 0 else c k))"
proof -
  let ?key = "\<lambda>p. NamespacedName (GetPod p)"
  let ?u = "\<lambda>q. cacheGet c (?key q)"
  let ?m = "fold (\<lambda>q a. min (?u q) a) scoredPods 100000"
  define best where "best = filter (\<lambda>q. ?u q = ?m) scoredPods"
  define c1 where "c1 = (\<lambda>k. if c k = None \<and> k \<in> ?key ` set scoredPods then Some 0 else c k)"
  have loop: "lru_loop scoredPods (c, [], 100000) = (c1, best, ?m)"
    by (simp add: lru_loop_result best_def c1_def)
  have least: "?m \<le> ?u p" if "p \<in> set scoredPods" for p
    using that by (rule fold_min_le_elem)
  have "?m \<noteq> 100000 \<or> ?u p0 = ?m"
    using least [OF some] below by linarith
  moreover have "?m = 100000 \<or> (\<exists>p \<in> set scoredPods. ?m = ?u p)"
    by (rule fold_min_attained)
  ultimately obtain p1 where p1: "p1 \<in> set scoredPods" "?u p1 = ?m"
    using some by metis
  then have ne: "best \<noteq> []"
    by (auto simp: best_def filter_empty_conv)
  have u1: "cacheGet c1 k = cacheGet c k" for k
    by (simp add: c1_def cacheGet_def split: option.splits)
  have fin: "\<exists>w. w \<in> set best \<and> LRUPicker_Pick r c scoredPods
       = (Inr \<lparr>TargetPod = w\<rparr>, c1(?key w \<mapsto> cacheGet c (?key w) + 1))"
  proof (cases "length best = 1")
    case True
    then have "best ! 0 \<in> set best"
      by (metis nth_mem zero_less_one)
    with True show ?thesis
      unfolding LRUPicker_Pick_def loop by (simp add: u1 Let_def)
  next
    case False
    from ne have "best ! (r mod length best) \<in> set best"
      by simp
    with False ne show ?thesis
      unfolding LRUPicker_Pick_def loop
      by (simp add: u1 Let_def RandomPicker_Pick_def rand_Intn_def)
  qed
  then obtain w where w: "w \<in> set best"
    and pick: "LRUPicker_Pick r c scoredPods
       = (Inr \<lparr>TargetPod = w\<rparr>, c1(?key w \<mapsto> cacheGet c (?key w) + 1))"
    by blast
  from w have win: "w \<in> set scoredPods" and uw: "?u w = ?m"
    by (simp_all add: best_def)
  have "c1(?key w \<mapsto> cacheGet c (?key w) + 1)
    = (\<lambda>k. if k = ?key w then Some (cacheGet c (?key w) + 1)
           else if c k = None \<and> k \<in> ?key ` set scoredPods then Some 0 else c k)"
    by (auto simp: c1_def fun_eq_iff)
  with pick win uw least show ?thesis
    by (intro exI [of _ w]) simp
qed

text \<open>
  Two runs below the constant: a pod never used is preferred to one used twice, and a
  tie between two unused pods is settled by the draw.
\<close>

lemma LRUPicker_Pick_prefers_unused:
  "LRUPicker_Pick r [NamespacedName (GetPod scoredA) \<mapsto> 2] [scoredA, scoredB]
     = (Inr \<lparr>TargetPod = scoredB\<rparr>,
        [NamespacedName (GetPod scoredA) \<mapsto> 2, NamespacedName (GetPod scoredB) \<mapsto> 1])"
  by (simp add: LRUPicker_Pick_def Let_def cacheGet_def GetPod_def scoredA_def scoredB_def
      podA_def podB_def)

lemma LRUPicker_Pick_tie_is_drawn:
  "fst (LRUPicker_Pick 0 Map.empty [scoredA, scoredB]) = Inr \<lparr>TargetPod = scoredA\<rparr>
   \<and> fst (LRUPicker_Pick 1 Map.empty [scoredA, scoredB]) = Inr \<lparr>TargetPod = scoredB\<rparr>"
  by (simp add: LRUPicker_Pick_def Let_def cacheGet_def GetPod_def scoredA_def scoredB_def
      podA_def podB_def RandomPicker_Pick_def rand_Intn_def)

section \<open>Scorers\<close>

lemma NamespacedName_String_nonempty: "NamespacedName_String n \<noteq> ''''"
  by (simp add: NamespacedName_String_def)

lemma takeWhile_until_separator:
  "c \<notin> set xs \<Longrightarrow> takeWhile (\<lambda>x. x \<noteq> c) (xs @ c # ys) = xs"
  by (induction xs) auto

text \<open>
  Kubernetes namespaces contain no \<open>/\<close>; for such names the rendering
  \<open>namespace/name\<close> determines the namespaced name.
\<close>

lemma NamespacedName_String_inj:
  assumes "CHR ''/'' \<notin> set (Namespace a)" and "CHR ''/'' \<notin> set (Namespace b)"
  shows "NamespacedName_String a = NamespacedName_String b \<longleftrightarrow> a = b"
proof
  assume eq: "NamespacedName_String a = NamespacedName_String b"
  have "takeWhile (\<lambda>c. c \<noteq> CHR ''/'') (Namespace a @ CHR ''/'' # Name a) = Namespace a"
    using assms(1) by (rule takeWhile_until_separator)
  moreover have "takeWhile (\<lambda>c. c \<noteq> CHR ''/'') (Namespace b @ CHR ''/'' # Name b) = Namespace b"
    using assms(2) by (rule takeWhile_until_separator)
  ultimately have ns: "Namespace a = Namespace b"
    using eq by (simp add: NamespacedName_String_def)
  with eq have "Name a = Name b"
    by (simp add: NamespacedName_String_def)
  with ns show "a = b" by simp
next
  assume "a = b"
  then show "NamespacedName_String a = NamespacedName_String b" by simp
qed

text \<open>
  Claim C3. \<open>SessionAffinityScorer.ScoreTargets\<close> never returns an error. For a
  request and any pod list it returns one entry per pod, in order; with an empty session
  id every score is 0; otherwise the score is 1 for the pods whose namespaced name is
  that of the pod that \<open>GetPodForSession\<close> gives for the session and 0 for every
  other pod (so all 0 when no pod is stored). The code compares the renderings
  \<open>namespace/name\<close>, which is the comparison of the namespaced names themselves
  whenever the namespaces contain no \<open>/\<close>.
\<close>

theorem SessionAffinityScorer_ScoreTargets_scores:
  "(\<forall>e. SessionAffinityScorer_ScoreTargets ds ctx pods \<noteq> Inl (Error e))
   \<and> (\<forall>req. Req ctx = Some req \<longrightarrow>
        (\<exists>scored. SessionAffinityScorer_ScoreTargets ds ctx pods = Inr scored
           \<and> map ps_Pod scored = pods
           \<and> (SessionID req = '''' \<longrightarrow> (\<forall>s \<in> set scored. ps_Score s = 0))
           \<and> (SessionID req \<noteq> '''' \<longrightarrow>
                (\<forall>s \<in> set scored.
                   ps_Score s =
                     (if \<exists>stored. GetPodForSession ds (SessionID req) = Some stored
                            \<and> NamespacedName_String (NamespacedName stored)
                                = NamespacedName_String (NamespacedName (Pod (ps_Pod s)))
                      then 1 else 0)))))
   \<and> (\<forall>(stored::Pod) (pod::PodMetrics).
         CHR ''/'' \<notin> set (Namespace (NamespacedName stored))
         \<and> CHR ''/'' \<notin> set (Namespace (NamespacedName (Pod pod)))
         \<longrightarrow> (NamespacedName_String (NamespacedName stored)
                = NamespacedName_String (NamespacedName (Pod pod))
              \<longleftrightarrow> NamespacedName stored = NamespacedName (Pod pod)))"
proof (intro conjI allI impI)
  fix e
  show "SessionAffinityScorer_ScoreTargets ds ctx pods \<noteq> Inl (Error e)"
    by (simp add: SessionAffinityScorer_ScoreTargets_def nilDereference_def Let_def
        split: option.splits)
next
  fix req
  assume r: "Req ctx = Some req"
  show "\<exists>scored. SessionAffinityScorer_ScoreTargets ds ctx pods = Inr scored
           \<and> map ps_Pod scored = pods
           \<and> (SessionID req = '''' \<longrightarrow> (\<forall>s \<in> set scored. ps_Score s = 0))
           \<and> (SessionID req \<noteq> '''' \<longrightarrow>
                (\<forall>s \<in> set scored.
                   ps_Score s =
                     (if \<exists>stored. GetPodForSession ds (SessionID req) = Some stored
                            \<and> NamespacedName_String (NamespacedName stored)
                                = NamespacedName_String (NamespacedName (Pod (ps_Pod s)))
                      then 1 else 0)))"
  proof (cases "SessionID req = ''''")
    case True
    with r show ?thesis
      by (auto simp: SessionAffinityScorer_ScoreTargets_def Let_def comp_def
          NamespacedName_String_nonempty [symmetric])
  next
    case False
    with r show ?thesis
      by (cases "GetPodForSession ds (SessionID req)")
         (auto simp: SessionAffinityScorer_ScoreTargets_def Let_def comp_def
            NamespacedName_String_nonempty [symmetric])
  qed
next
  fix stored :: Pod and pod :: PodMetrics
  assume "CHR ''/'' \<notin> set (Namespace (NamespacedName stored))
         \<and> CHR ''/'' \<notin> set (Namespace (NamespacedName (Pod pod)))"
  then show "NamespacedName_String (NamespacedName stored)
                = NamespacedName_String (NamespacedName (Pod pod))
              \<longleftrightarrow> NamespacedName stored = NamespacedName (Pod pod)"
    by (simp add: NamespacedName_String_inj)
qed

text \<open>
  The claim at a store where session \<open>s1\<close> is bound to the first of two pods: a
  request of that session scores the pods 1 and 0, a request without session 0 and 0.
\<close>

theorem SessionAffinityScorer_ScoreTargets_scores_witness:
  "Req \<lparr>Req = Some sessionRequest, PodsSnapshot = [podA, podB]\<rparr> = Some sessionRequest
   \<and> SessionID sessionRequest \<noteq> ''''
   \<and> GetPodForSession sessionStore (SessionID sessionRequest) = Some (Pod podA)
   \<and> (\<exists>scored. SessionAffinityScorer_ScoreTargets sessionStore
          \<lparr>Req = Some sessionRequest, PodsSnapshot = [podA, podB]\<rparr> [podA, podB] = Inr scored
        \<and> map ps_Pod scored = [podA, podB] \<and> map ps_Score scored = [1, 0])
   \<and> SessionID (exampleRequest True) = ''''
   \<and> (\<exists>scored. SessionAffinityScorer_ScoreTargets sessionStore
          \<lparr>Req = Some (exampleRequest True), PodsSnapshot = [podA, podB]\<rparr> [podA, podB] = Inr scored
        \<and> map ps_Pod scored = [podA, podB] \<and> map ps_Score scored = [0, 0])"
proof -
  let ?ctx = "\<lparr>Req = Some sessionRequest, PodsSnapshot = [podA, podB]\<rparr>"
  let ?noSession = "\<lparr>Req = Some (exampleRequest True), PodsSnapshot = [podA, podB]\<rparr>"
  have sid: "SessionID sessionRequest \<noteq> ''''" and sid0: "SessionID (exampleRequest True) = ''''"
    by (simp_all add: sessionRequest_def exampleRequest_def)
  have g: "GetPodForSession sessionStore (SessionID sessionRequest) = Some (Pod podA)"
    by (simp add: GetPodForSession_def sessionStore_def SetPodForSession_def sessionRequest_def)
  have diffB: "NamespacedName_String (NamespacedName (Pod podA))
                 \<noteq> NamespacedName_String (NamespacedName (Pod podB))"
    by (simp add: NamespacedName_String_def podA_def podB_def)
  have r: "Req ?ctx = Some sessionRequest" and r0: "Req ?noSession = Some (exampleRequest True)"
    by simp_all
  note T = SessionAffinityScorer_ScoreTargets_scores [of sessionStore ?ctx "[podA, podB]",
      THEN conjunct2, THEN conjunct1, THEN spec, THEN mp, OF r]
  note T0 = SessionAffinityScorer_ScoreTargets_scores [of sessionStore ?noSession "[podA, podB]",
      THEN conjunct2, THEN conjunct1, THEN spec, THEN mp, OF r0]
  from T obtain scored
    where run: "SessionAffinityScorer_ScoreTargets sessionStore ?ctx [podA, podB] = Inr scored"
      and ps: "map ps_Pod scored = [podA, podB]"
      and imp: "SessionID sessionRequest \<noteq> '''' \<longrightarrow>
             (\<forall>s \<in> set scored. ps_Score s =
               (if \<exists>stored. GetPodForSession sessionStore (SessionID sessionRequest) = Some stored
                      \<and> NamespacedName_String (NamespacedName stored)
                          = NamespacedName_String (NamespacedName (Pod (ps_Pod s)))
                then 1 else 0))"
    by (elim exE conjE)
  from imp sid have sc: "\<forall>s \<in> set scored. ps_Score s =
               (if \<exists>stored. GetPodForSession sessionStore (SessionID sessionRequest) = Some stored
                      \<and> NamespacedName_String (NamespacedName stored)
                          = NamespacedName_String (NamespacedName (Pod (ps_Pod s)))
                then 1 else 0)"
    by (rule mp)
  from ps obtain s1 s2 where l: "scored = [s1, s2]" and p1: "ps_Pod s1 = podA" and p2: "ps_Pod s2 = podB"
    by (auto simp: map_eq_Cons_conv)
  from sc l have "ps_Score s1 =
               (if \<exists>stored. GetPodForSession sessionStore (SessionID sessionRequest) = Some stored
                      \<and> NamespacedName_String (NamespacedName stored)
                          = NamespacedName_String (NamespacedName (Pod (ps_Pod s1)))
                then 1 else 0)"
    by simp
  then have v1: "ps_Score s1 = 1"
    unfolding g p1 by simp
  from sc l have "ps_Score s2 =
               (if \<exists>stored. GetPodForSession sessionStore (SessionID sessionRequest) = Some stored
                      \<and> NamespacedName_String (NamespacedName stored)
                          = NamespacedName_String (NamespacedName (Pod (ps_Pod s2)))
                then 1 else 0)"
    by simp
  then have v2: "ps_Score s2 = 0"
    unfolding g p2 using diffB by simp
  from l v1 v2 have v: "map ps_Score scored = [1, 0]"
    by simp
  from T0 obtain scored0
    where run0: "SessionAffinityScorer_ScoreTargets sessionStore ?noSession [podA, podB] = Inr scored0"
      and ps0: "map ps_Pod scored0 = [podA, podB]"
      and imp0: "SessionID (exampleRequest True) = '''' \<longrightarrow> (\<forall>s \<in> set scored0. ps_Score s = 0)"
    by (elim exE conjE)
  from imp0 sid0 have sc0: "\<forall>s \<in> set scored0. ps_Score s = 0"
    by (rule mp)
  from ps0 obtain t1 t2 where l0: "scored0 = [t1, t2]"
    by (auto simp: map_eq_Cons_conv)
  with sc0 have v0: "map ps_Score scored0 = [0, 0]"
    by simp
  from run ps v have e1: "\<exists>scored. SessionAffinityScorer_ScoreTargets sessionStore ?ctx [podA, podB] = Inr scored
        \<and> map ps_Pod scored = [podA, podB] \<and> map ps_Score scored = [1, 0]"
    by (intro exI [of _ scored] conjI)
  from run0 ps0 v0 have e0: "\<exists>scored. SessionAffinityScorer_ScoreTargets sessionStore ?noSession [podA, podB] = Inr scored
        \<and> map ps_Pod scored = [podA, podB] \<and> map ps_Score scored = [0, 0]"
    by (intro exI [of _ scored0] conjI)
  from r sid g e1 sid0 e0 show ?thesis
    by (intro conjI)
qed

subsection \<open>The KV-cache scorer\<close>

lemma keysAndMap_loop_ids:
  "fst (podMetricsToKeysAndMap_loop pods acc)
     = fst acc @ List.map_filter (map_option (\<lambda>p. Address (Pod p))) pods"
  by (induction pods acc rule: podMetricsToKeysAndMap_loop.induct)
     (simp_all add: List.map_filter_simps)

lemma keysAndMap_loop_values:
  "snd (podMetricsToKeysAndMap_loop pods acc) a = Some pm \<Longrightarrow>
   (Some pm \<in> set pods \<and> Address (Pod pm) = a) \<or> snd acc a = Some pm"
  by (induction pods acc rule: podMetricsToKeysAndMap_loop.induct)
     (auto split: if_splits)

lemma keysAndMap_values:
  "snd (podMetricsToKeysAndMap pods) a = Some pm \<Longrightarrow>
   Some pm \<in> set pods \<and> Address (Pod pm) = a"
  using keysAndMap_loop_values [of pods "([], Map.empty)" a pm]
  by (simp add: podMetricsToKeysAndMap_def)

lemma keysAndMap_ids_nonempty:
  "Some p \<in> set pods \<Longrightarrow> fst (podMetricsToKeysAndMap pods) \<noteq> []"
  by (auto simp: podMetricsToKeysAndMap_def keysAndMap_loop_ids map_filter_def filter_empty_conv)

text \<open>
  Claim C4, amended. With a request and at least one pod that is not nil, the scorer
  calls the indexer with the addresses of the pods. When the indexer fails with an error,
  \<open>ScoreTargets\<close> returns no scores and that error wrapped by \<open>fmt.Errorf\<close> under
  the message \<open>failed to get pod scores\<close>: it attaches no code of its own, and the
  only code on the chain is the one the indexer's error carries, if any. When the indexer
  succeeds, every returned entry is a pod of the input list with the score the indexer
  gave for its address; pods the indexer did not score are left out.
\<close>

theorem KVCacheAwareScorer_ScoreTargets_wraps_error:
  assumes "Req ctx = Some req" and "Some p \<in> set pods"
  shows "(\<forall>e. GetPodScores (Prompt req) (Model req) (fst (podMetricsToKeysAndMap pods)) = Inl e \<longrightarrow>
            KVCacheAwareScorer_ScoreTargets GetPodScores ctx pods
              = Inl (Error (Errorf ''failed to get pod scores: %w'' (Some e)))
            \<and> chainCode (Errorf ''failed to get pod scores: %w'' (Some e)) = chainCode e)
       \<and> (\<forall>scores. GetPodScores (Prompt req) (Model req) (fst (podMetricsToKeysAndMap pods))
                       = Inr scores \<longrightarrow>
            (\<exists>scored. KVCacheAwareScorer_ScoreTargets GetPodScores ctx pods = Inr scored
               \<and> (\<forall>s \<in> set scored.
                     Some (ps_Pod s) \<in> set pods
                     \<and> (\<exists>i \<in> set scores. ips_Name i = Address (Pod (ps_Pod s))
                                           \<and> ips_Score i = ps_Score s))))"
proof -
  obtain ids m where km: "podMetricsToKeysAndMap pods = (ids, m)"
    by (cases "podMetricsToKeysAndMap pods")
  have ne: "ids \<noteq> []"
    using keysAndMap_ids_nonempty [OF assms(2)] km by simp
  have vals: "Some pm \<in> set pods \<and> Address (Pod pm) = a" if "m a = Some pm" for a pm
    using keysAndMap_values [of pods a pm] that km by simp
  show ?thesis
  proof (intro conjI allI impI)
    fix e
    assume "GetPodScores (Prompt req) (Model req) (fst (podMetricsToKeysAndMap pods)) = Inl e"
    then show "KVCacheAwareScorer_ScoreTargets GetPodScores ctx pods
              = Inl (Error (Errorf ''failed to get pod scores: %w'' (Some e)))"
      using assms(1) km ne by (simp add: KVCacheAwareScorer_ScoreTargets_def)
  next
    fix e
    show "chainCode (Errorf ''failed to get pod scores: %w'' (Some e)) = chainCode e"
      by simp
  next
    fix scores
    assume ok: "GetPodScores (Prompt req) (Model req) (fst (podMetricsToKeysAndMap pods)) = Inr scores"
    let ?scored = "List.map_filter (\<lambda>pod.
                               (case m (ips_Name pod) of
                                  None \<Rightarrow> None
                                | Some podMetrics \<Rightarrow>
                                    Some \<lparr>ps_Score = ips_Score pod, ps_Pod = podMetrics\<rparr>))
                             scores"
    have run: "KVCacheAwareScorer_ScoreTargets GetPodScores ctx pods = Inr ?scored"
      using assms(1) km ne ok by (simp add: KVCacheAwareScorer_ScoreTargets_def)
    have "Some (ps_Pod s) \<in> set pods
          \<and> (\<exists>i \<in> set scores. ips_Name i = Address (Pod (ps_Pod s)) \<and> ips_Score i = ps_Score s)"
      if "s \<in> set ?scored" for s
    proof -
      from that obtain i pm where i: "i \<in> set scores" and mi: "m (ips_Name i) = Some pm"
        and s: "s = \<lparr>ps_Score = ips_Score i, ps_Pod = pm\<rparr>"
        by (auto simp: List.map_filter_def split: option.splits)
      from vals [OF mi] i s show ?thesis
        by auto
    qed
    with run show "\<exists>scored. KVCacheAwareScorer_ScoreTargets GetPodScores ctx pods = Inr scored
               \<and> (\<forall>s \<in> set scored.
                     Some (ps_Pod s) \<in> set pods
                     \<and> (\<exists>i \<in> set scores. ips_Name i = Address (Pod (ps_Pod s))
                                           \<and> ips_Score i = ps_Score s))"
      by blast
  qed
qed

text \<open>
  The amended claim at one pod and one nil pointer: with the failing indexer the error is
  the wrapped one; with an indexer that scores two known addresses and an unknown one,
  the result holds pods of the input only.
\<close>

theorem KVCacheAwareScorer_ScoreTargets_wraps_error_witness:
  "Req \<lparr>Req = Some (exampleRequest True), PodsSnapshot = [podA]\<rparr> = Some (exampleRequest True)
   \<and> Some podA \<in> set [Some podA, None]
   \<and> failingIndexer (Prompt (exampleRequest True)) (Model (exampleRequest True))
        (fst (podMetricsToKeysAndMap [Some podA, None])) = Inl (ErrorsNew ''connection refused'')
   \<and> KVCacheAwareScorer_ScoreTargets failingIndexer
        \<lparr>Req = Some (exampleRequest True), PodsSnapshot = [podA]\<rparr> [Some podA, None]
      = Inl (Error (Errorf ''failed to get pod scores: %w'' (Some (ErrorsNew ''connection refused''))))
   \<and> exampleIndexer (Prompt (exampleRequest True)) (Model (exampleRequest True))
        (fst (podMetricsToKeysAndMap [Some podA, None]))
      = Inr [\<lparr>ips_Name = ''10.0.0.1'', ips_Score = 9 / 10\<rparr>,
             \<lparr>ips_Name = ''10.0.0.2'', ips_Score = 1 / 10\<rparr>,
             \<lparr>ips_Name = ''10.0.0.9'', ips_Score = 1\<rparr>]
   \<and> (\<exists>scored. KVCacheAwareScorer_ScoreTargets exampleIndexer
          \<lparr>Req = Some (exampleRequest True), PodsSnapshot = [podA]\<rparr> [Some podA, None] = Inr scored
        \<and> (\<forall>s \<in> set scored. Some (ps_Pod s) \<in> set [Some podA, None]))"
proof -
  let ?ctx = "\<lparr>Req = Some (exampleRequest True), PodsSnapshot = [podA]\<rparr>"
  have a: "Req ?ctx = Some (exampleRequest True)"
    by simp
  have b: "Some podA \<in> set [Some podA, None]"
    by simp
  have f: "failingIndexer (Prompt (exampleRequest True)) (Model (exampleRequest True))
        (fst (podMetricsToKeysAndMap [Some podA, None])) = Inl (ErrorsNew ''connection refused'')"
    by (simp add: failingIndexer_def)
  have g: "exampleIndexer (Prompt (exampleRequest True)) (Model (exampleRequest True))
        (fst (podMetricsToKeysAndMap [Some podA, None]))
      = Inr [\<lparr>ips_Name = ''10.0.0.1'', ips_Score = 9 / 10\<rparr>,
             \<lparr>ips_Name = ''10.0.0.2'', ips_Score = 1 / 10\<rparr>,
             \<lparr>ips_Name = ''10.0.0.9'', ips_Score = 1\<rparr>]"
    by (simp add: exampleIndexer_def)
  from KVCacheAwareScorer_ScoreTargets_wraps_error [OF a b, of failingIndexer] f
  have 1: "KVCacheAwareScorer_ScoreTargets failingIndexer ?ctx [Some podA, None]
      = Inl (Error (Errorf ''failed to get pod scores: %w'' (Some (ErrorsNew ''connection refused''))))"
    by blast
  from KVCacheAwareScorer_ScoreTargets_wraps_error [OF a b, of exampleIndexer] g
  have 2: "\<exists>scored. KVCacheAwareScorer_ScoreTargets exampleIndexer ?ctx [Some podA, None] = Inr scored
        \<and> (\<forall>s \<in> set scored. Some (ps_Pod s) \<in> set [Some podA, None])"
    by blast
  from a b f g 1 2 show ?thesis
    by blast
qed

text \<open>
  The claim as stated fails where the indexer fails with an error that carries no code:
  the scorer returns that error wrapped, and no \<open>KVCacheIndexerUnavailable\<close> code is
  on its chain.
\<close>

theorem KVCacheAwareScorer_indexer_error_has_no_code:
  "failingIndexer (Prompt (exampleRequest True)) (Model (exampleRequest True)) [''10.0.0.1'']
     = Inl (ErrorsNew ''connection refused'')
   \<and> KVCacheAwareScorer_ScoreTargets failingIndexer
        \<lparr>Req = Some (exampleRequest True), PodsSnapshot = [podA]\<rparr> [Some podA]
      = Inl (Error (Errorf ''failed to get pod scores: %w'' (Some (ErrorsNew ''connection refused''))))
   \<and> chainCode (Errorf ''failed to get pod scores: %w'' (Some (ErrorsNew ''connection refused'')))
      \<noteq> Some KVCacheIndexerUnavailable"
  by (simp add: KVCacheAwareScorer_ScoreTargets_def failingIndexer_def podMetricsToKeysAndMap_def
      podA_def)

section \<open>The scheduler\<close>

lemma Filter_narrows_subset:
  "Filter_narrows t \<Longrightarrow> set (fst (Filter_Filter t ctx pods)) \<subseteq> set pods"
proof (induction t ctx pods rule: Filter_Filter.induct)
  case (1 name f ctx pods)
  then show ?case by simp
next
  case (2 current nextOnSuccess nextOnFailure nextOnSuccessOrFailure ctx pods)
  obtain filtered err where cur: "Filter_Filter current ctx pods = (filtered, err)"
    by (cases "Filter_Filter current ctx pods")
  have sub: "set filtered \<subseteq> set pods"
    using "2.IH"(1) "2.prems" cur by simp
  show ?case
  proof (cases "filtered = []")
    case True
    then show ?thesis
      using "2.IH"(2-) "2.prems" cur
      by (cases nextOnFailure; cases nextOnSuccessOrFailure) auto
  next
    case False
    then have "set (fst (Filter_Filter n ctx filtered)) \<subseteq> set pods"
      if "nextOnSuccess = Some n \<or> (nextOnSuccess = None \<and> nextOnSuccessOrFailure = Some n)" for n
      using that "2.IH"(2-) "2.prems" cur sub by (fastforce split: option.splits)
    with False sub show ?thesis
      using cur by (cases nextOnSuccess; cases nextOnSuccessOrFailure) auto
  qed
qed

lemma toFilterFunc_narrows: "set (fst (toFilterFunc pp ctx pods)) \<subseteq> set pods"
  by (simp add: toFilterFunc_def)

lemma leastQueuingFilterFunc_narrows: "set (fst (leastQueuingFilterFunc ctx pods)) \<subseteq> set pods"
  by (cases pods) (auto simp: leastQueuingFilterFunc_def Let_def)

lemma leastKVCacheFilterFunc_narrows: "set (fst (leastKVCacheFilterFunc ctx pods)) \<subseteq> set pods"
  by (cases pods) (auto simp: leastKVCacheFilterFunc_def Let_def)

lemma lowLatencyFilter_narrows: "Filter_narrows (lowLatencyFilter config)"
  by (simp add: lowLatencyFilter_def lowQueueFilter_def leastQueueFilter_def
      leastKVCacheFilter_def loRAAffinityFilter_def toFilterFunc_narrows
      leastQueuingFilterFunc_narrows leastKVCacheFilterFunc_narrows)

lemma sheddableRequestFilter_narrows: "Filter_narrows (sheddableRequestFilter config)"
  by (simp add: sheddableRequestFilter_def hasCapacityFilter_def dropRequestFilter_def
      toFilterFunc_narrows lowLatencyFilter_narrows)

lemma topPods_subset: "set (topPods results pods) \<subseteq> set pods"
  by (cases pods) (auto simp: topPods_def Let_def)

lemma ScorerManager_ScoreTargets_member:
  "ScorerManager_ScoreTargets r ds mgr ctx pods = Inr p \<Longrightarrow> p \<in> set pods"
  using topPods_subset
  by (auto simp: ScorerManager_ScoreTargets_def split: sum.splits
      dest!: RandomPicker_Pick_member)

lemma ToSchedulerPodMetrics_id: "ToSchedulerPodMetrics pods = pods"
  by (simp add: ToSchedulerPodMetrics_def map_idI)

text \<open>
  Claim C2. Whatever the request, the datastore, the configuration, the indexer and the
  draw of the picker: when \<open>Schedule\<close> returns a pod without error, the pod is one
  of the snapshot that the call took from the datastore at its entry.
\<close>

theorem Schedule_returns_snapshot_pod:
  assumes "Schedule r (NewScheduler config indexer ds) req = Inr pod"
  shows "pod \<in> set (ToSchedulerPodMetrics (PodGetAll ds))"
proof -
  let ?snap = "ToSchedulerPodMetrics (PodGetAll ds)"
  let ?ctx = "NewContext req ?snap"
  let ?flt = "if Critical req then lowLatencyFilter config else sheddableRequestFilter config"
  obtain pods err where f: "Filter_Filter ?flt ?ctx ?snap = (pods, err)"
    by (cases "Filter_Filter ?flt ?ctx ?snap")
  have "Filter_narrows ?flt"
    by (simp add: lowLatencyFilter_narrows sheddableRequestFilter_narrows)
  then have "set (fst (Filter_Filter ?flt ?ctx ?snap)) \<subseteq> set ?snap"
    by (rule Filter_narrows_subset)
  with f have sub: "set pods \<subseteq> set ?snap"
    by simp
  have sel: "PodsSnapshot ?ctx = ?snap"
    by (simp add: NewContext_def)
  have "ScorerManager_ScoreTargets r ds
          [(SessionAffinityScorer, 1), (KVCacheAwareScorer indexer, 5)] ?ctx pods = Inr pod"
    using assms f
    by (simp add: Schedule_def NewScheduler_def Let_def sel
        split: if_splits sum.splits failure.splits)
  then have "pod \<in> set pods"
    by (rule ScorerManager_ScoreTargets_member)
  with sub show ?thesis
    by blast
qed

text \<open>
  The claim at a store of two uncongested pods, a critical request without session and
  an indexer that scores the first pod 0.9 and the second 0.1: the first pod is returned,
  and it is in the snapshot.
\<close>

theorem Schedule_returns_snapshot_pod_witness:
  "Schedule 0 (NewScheduler defaultConfig exampleIndexer (storeOf [podA, podB])) (exampleRequest True)
     = Inr podA
   \<and> podA \<in> set (ToSchedulerPodMetrics (PodGetAll (storeOf [podA, podB])))"
proof -
  have run: "Schedule 0 (NewScheduler defaultConfig exampleIndexer (storeOf [podA, podB]))
               (exampleRequest True) = Inr podA"
    by (simp add: Schedule_def NewScheduler_def defaultConfig_def exampleIndexer_def storeOf_def
        NewDatastore_def podA_def podB_def exampleRequest_def Let_def NewContext_def
        ToSchedulerPodMetrics_def PodGetAll_def PodList_def lowLatencyFilter_def
        lowQueueFilter_def leastQueueFilter_def leastKVCacheFilter_def loRAAffinityFilter_def
        toFilterFunc_def queueThresholdPredicate_def loRAAffinityPredicate_def
        leastQueuingFilterFunc_def leastKVCacheFilterFunc_def ScorerManager_ScoreTargets_def
        Scorer_ScoreTargets_def SessionAffinityScorer_ScoreTargets_def
        KVCacheAwareScorer_ScoreTargets_def podMetricsToKeysAndMap_def List.map_filter_def
        topPods_def combinedScore_def RandomPicker_Pick_def rand_Intn_def
        NamespacedName_String_def)
  from Schedule_returns_snapshot_pod [OF run] run show ?thesis
    by simp
qed

lemma hasCapacity_none:
  assumes "\<forall>pm \<in> set pods.
     \<not> (QueueDepth (Metrics pm) \<le> QueueThresholdCritical config
        \<and> KVCacheUtilization (Metrics pm) \<le> KVCacheThreshold config)"
  shows "Filter_Filter (hasCapacityFilter config) ctx pods = ([], None)"
proof -
  have "filter (and_pred (queueThresholdPredicate (QueueThresholdCritical config))
                  (kvCacheThresholdPredicate (KVCacheThreshold config)) (Req ctx)) pods = []"
    using assms
    by (auto simp: filter_empty_conv and_pred_def queueThresholdPredicate_def
        kvCacheThresholdPredicate_def)
  then show ?thesis
    by (simp add: hasCapacityFilter_def toFilterFunc_def)
qed

lemma sheddableRequestFilter_drops:
  assumes "\<forall>pm \<in> set pods.
     \<not> (QueueDepth (Metrics pm) \<le> QueueThresholdCritical config
        \<and> KVCacheUtilization (Metrics pm) \<le> KVCacheThreshold config)"
  shows "Filter_Filter (sheddableRequestFilter config) ctx pods
    = ([], Some (ErrutilError InferencePoolResourceExhausted
                   ''dropping request due to limited backend resources''))"
  using hasCapacity_none [OF assms, of ctx]
  by (simp add: sheddableRequestFilter_def dropRequestFilter_def)

text \<open>
  Claim C1. For a sheddable request (\<open>Critical\<close> false) and a datastore in which no pod
  has capacity, that is, no pod has both its queue depth at most
  \<open>QueueThresholdCritical\<close> and its KV-cache utilisation at most \<open>KVCacheThreshold\<close>,
  \<open>Schedule\<close> returns no pod and an error. The error is the one of the drop filter,
  of code \<open>InferencePoolResourceExhausted\<close>, wrapped by \<open>fmt.Errorf\<close> with
  \<open>%w\<close>: unwrapping it gives the filter's error, and the code on its chain is
  \<open>InferencePoolResourceExhausted\<close>.
\<close>

theorem Schedule_sheddable_drop:
  assumes "\<not> Critical req"
    and "\<forall>pm \<in> set (PodGetAll ds).
           \<not> (QueueDepth (Metrics pm) \<le> QueueThresholdCritical config
              \<and> KVCacheUtilization (Metrics pm) \<le> KVCacheThreshold config)"
  shows "\<exists>e. Schedule r (NewScheduler config indexer ds) req = Inl (Error e)
            \<and> Unwrap e = Some (ErrutilError InferencePoolResourceExhausted
                                 ''dropping request due to limited backend resources'')
            \<and> chainCode e = Some InferencePoolResourceExhausted"
proof -
  let ?snap = "ToSchedulerPodMetrics (PodGetAll ds)"
  have none: "\<forall>pm \<in> set ?snap.
           \<not> (QueueDepth (Metrics pm) \<le> QueueThresholdCritical config
              \<and> KVCacheUtilization (Metrics pm) \<le> KVCacheThreshold config)"
    using assms(2) by (simp only: ToSchedulerPodMetrics_id)
  have "Schedule r (NewScheduler config indexer ds) req
    = Inl (Error (Errorf
        ''failed to apply filter, resulted %v pods, this should never happen: %w''
        (Some (ErrutilError InferencePoolResourceExhausted
                 ''dropping request due to limited backend resources''))))"
    using assms(1) sheddableRequestFilter_drops [OF none, of "NewContext req ?snap"]
    by (simp add: Schedule_def NewScheduler_def Let_def NewContext_def)
  then show ?thesis
    by simp
qed

text \<open>
  The claim at the scenario of the sheddable drop: one pod with queue depth 10 and
  KV-cache utilisation 0.95, the default thresholds 5 and 0.8, a sheddable request.
\<close>

theorem Schedule_sheddable_drop_witness:
  "\<not> Critical (exampleRequest False)
   \<and> PodGetAll (storeOf [busyPod]) = [busyPod]
   \<and> \<not> (QueueDepth (Metrics busyPod) \<le> QueueThresholdCritical defaultConfig
         \<and> KVCacheUtilization (Metrics busyPod) \<le> KVCacheThreshold defaultConfig)
   \<and> (\<exists>e. Schedule 0 (NewScheduler defaultConfig exampleIndexer (storeOf [busyPod]))
              (exampleRequest False) = Inl (Error e)
          \<and> Unwrap e = Some (ErrutilError InferencePoolResourceExhausted
                               ''dropping request due to limited backend resources'')
          \<and> chainCode e = Some InferencePoolResourceExhausted)"
proof -
  have a: "\<not> Critical (exampleRequest False)"
    by (simp add: exampleRequest_def)
  have all: "PodGetAll (storeOf [busyPod]) = [busyPod]"
    by (simp add: PodGetAll_def PodList_def storeOf_def NewDatastore_def)
  have busy: "\<not> (QueueDepth (Metrics busyPod) \<le> QueueThresholdCritical defaultConfig
         \<and> KVCacheUtilization (Metrics busyPod) \<le> KVCacheThreshold defaultConfig)"
    by (simp add: busyPod_def defaultConfig_def)
  from all busy have b: "\<forall>pm \<in> set (PodGetAll (storeOf [busyPod])).
         \<not> (QueueDepth (Metrics pm) \<le> QueueThresholdCritical defaultConfig
            \<and> KVCacheUtilization (Metrics pm) \<le> KVCacheThreshold defaultConfig)"
    by simp
  from Schedule_sheddable_drop [OF a b, of 0 exampleIndexer] a all busy show ?thesis
    by blast
qed

end
